theory Spec2Isabelle
  imports Main "HOL-Library.AList" "HOL-Library.Sublist"
begin

section \<open>The file store\<close>

text \<open>
  The blueprint upload of \<^verbatim>\<open>manager_rest/resources.py\<close> works on a real file system
  through \<^verbatim>\<open>os\<close>, \<^verbatim>\<open>shutil\<close> and \<^verbatim>\<open>tempfile\<close>.  The file system is a tree: a regular
  file holds its bytes, a directory holds named children.  A location is the list of
  names leading to it from the root directory.
\<close>

datatype node = File string | Dir "(string \<times> node) list"

type_synonym path = "string list"

fun lookup :: "node \<Rightarrow> path \<Rightarrow> node option" where
  "lookup n [] = Some n"
| "lookup (File d) (c # cs) = None"
| "lookup (Dir es) (c # cs) =
     (case map_of es c of None \<Rightarrow> None | Some n \<Rightarrow> lookup n cs)"

definition exists_at :: "node \<Rightarrow> path \<Rightarrow> bool" where
  "exists_at t p = (case lookup t p of None \<Rightarrow> False | Some _ \<Rightarrow> True)"

definition isdir_at :: "node \<Rightarrow> path \<Rightarrow> bool" where
  "isdir_at t p = (case lookup t p of Some (Dir _) \<Rightarrow> True | _ \<Rightarrow> False)"

definition isfile_at :: "node \<Rightarrow> path \<Rightarrow> bool" where
  "isfile_at t p = (case lookup t p of Some (File _) \<Rightarrow> True | _ \<Rightarrow> False)"

text \<open>
  \<open>put t p v\<close> makes \<open>v\<close> the node at \<open>p\<close> (replacing what is there); it has an effect
  only when the parent of \<open>p\<close> is a directory.  \<open>del t p\<close> unlinks the node at \<open>p\<close>.
\<close>

fun put :: "node \<Rightarrow> path \<Rightarrow> node \<Rightarrow> node" where
  "put t [] v = v"
| "put (File d) (c # cs) v = File d"
| "put (Dir es) [c] v = Dir (AList.update c v es)"
| "put (Dir es) (c # c' # cs) v =
     (case map_of es c of
        None \<Rightarrow> Dir es
      | Some n \<Rightarrow> Dir (AList.update c (put n (c' # cs) v) es))"

fun del :: "node \<Rightarrow> path \<Rightarrow> node" where
  "del t [] = t"
| "del (File d) (c # cs) = File d"
| "del (Dir es) [c] = Dir (AList.delete c es)"
| "del (Dir es) (c # c' # cs) =
     (case map_of es c of
        None \<Rightarrow> Dir es
      | Some n \<Rightarrow> Dir (AList.update c (del n (c' # cs)) es))"

text \<open>
  \<open>mkpath t p\<close> creates the directory \<open>p\<close> and every missing directory above it, as
  \<^verbatim>\<open>os.makedirs\<close> does; \<open>can_mkpath\<close> says that no regular file is in the way.
\<close>

fun mkpath :: "node \<Rightarrow> path \<Rightarrow> node" where
  "mkpath t [] = t"
| "mkpath (File d) (c # cs) = File d"
| "mkpath (Dir es) (c # cs) =
     (case map_of es c of
        None \<Rightarrow> Dir (AList.update c (mkpath (Dir []) cs) es)
      | Some n \<Rightarrow> Dir (AList.update c (mkpath n cs) es))"

fun can_mkpath :: "node \<Rightarrow> path \<Rightarrow> bool" where
  "can_mkpath (File d) p = False"
| "can_mkpath (Dir es) [] = True"
| "can_mkpath (Dir es) (c # cs) =
     (case map_of es c of None \<Rightarrow> True | Some n \<Rightarrow> can_mkpath n cs)"

definition listdir_at :: "node \<Rightarrow> path \<Rightarrow> string list option" where
  "listdir_at t p = (case lookup t p of Some (Dir es) \<Rightarrow> Some (map fst es) | _ \<Rightarrow> None)"

subsection \<open>Path strings\<close>

text \<open>
  The program handles paths as strings and joins them with \<^verbatim>\<open>os.path.join\<close>
  (\<^verbatim>\<open>posixpath.join\<close>): a second part that starts with a slash replaces the first.
\<close>

definition os_path_join :: "string \<Rightarrow> string \<Rightarrow> string" where
  "os_path_join a b =
     (if take 1 b = ''/'' then b
      else if a = [] \<or> last a = CHR ''/'' then a @ b
      else a @ ''/'' @ b)"

definition isabs :: "string \<Rightarrow> bool" where
  "isabs s = (take 1 s = ''/'')"

fun split_sep :: "string \<Rightarrow> string list" where
  "split_sep [] = [[]]"
| "split_sep (c # cs) =
     (if c = CHR ''/'' then [] # split_sep cs
      else (case split_sep cs of [] \<Rightarrow> [[c]] | w # ws \<Rightarrow> (c # w) # ws))"

definition basename :: "string \<Rightarrow> string" where
  "basename s = last (split_sep s)"

text \<open>
  The operating system resolves a path string component by component.  An empty
  component (a doubled or leading slash) is skipped, \<^verbatim>\<open>.\<close> stays in the current
  directory and \<^verbatim>\<open>..\<close> goes to its parent; both need the current location to be a
  directory.  There are no symbolic links, and a relative path is resolved from the
  root directory.
\<close>

fun walk :: "node \<Rightarrow> path \<Rightarrow> string list \<Rightarrow> path option" where
  "walk t cur [] = Some cur"
| "walk t cur (c # cs) =
     (if c = [] then walk t cur cs
      else if c = ''.'' then (if isdir_at t cur then walk t cur cs else None)
      else if c = ''..'' then (if isdir_at t cur then walk t (butlast cur) cs else None)
      else walk t (cur @ [c]) cs)"

definition resolve :: "node \<Rightarrow> string \<Rightarrow> path option" where
  "resolve t s = walk t [] (split_sep s)"

definition os_path_exists :: "node \<Rightarrow> string \<Rightarrow> bool" where
  "os_path_exists t s = (case resolve t s of None \<Rightarrow> False | Some p \<Rightarrow> exists_at t p)"

definition os_path_isdir :: "node \<Rightarrow> string \<Rightarrow> bool" where
  "os_path_isdir t s = (case resolve t s of None \<Rightarrow> False | Some p \<Rightarrow> isdir_at t p)"

definition os_path_isfile :: "node \<Rightarrow> string \<Rightarrow> bool" where
  "os_path_isfile t s = (case resolve t s of None \<Rightarrow> False | Some p \<Rightarrow> isfile_at t p)"


subsection \<open>Exceptions\<close>

text \<open>
  An exception is its class and its message.  \<open>BadParametersError\<close>,
  \<open>ParamUrlNotFoundError\<close> and \<open>InvalidBlueprintError\<close> are the classes of
  \<^verbatim>\<open>manager_exceptions\<close> that the upload raises; the others come from the Python
  library and from the blueprints manager.
\<close>

datatype exc_class =
    BadParametersError | ParamUrlNotFoundError | InvalidBlueprintError
  | DslParseException | RuntimeError | IOError | OSError | ShutilError
  | UnrecognizedFormat | UnicodeError | URLError | ValueError | OtherException

type_synonym exn = "exc_class \<times> string"

subsection \<open>Library calls that change the file store\<close>

text \<open>\<^verbatim>\<open>open(name, 'w')\<close>, one or more \<^verbatim>\<open>write\<close>s and the close, taken as one call.\<close>

definition open_write :: "string \<Rightarrow> string \<Rightarrow> node \<Rightarrow> exn + node" where
  "open_write name content t =
     (case resolve t name of
        None \<Rightarrow> Inl (IOError, name)
      | Some p \<Rightarrow>
          if p \<noteq> [] \<and> isdir_at t (butlast p) \<and> \<not> isdir_at t p
          then Inr (put t p (File content))
          else Inl (IOError, name))"

definition os_remove :: "string \<Rightarrow> node \<Rightarrow> exn + node" where
  "os_remove name t =
     (case resolve t name of
        None \<Rightarrow> Inl (OSError, name)
      | Some p \<Rightarrow>
          if p \<noteq> [] \<and> isfile_at t p then Inr (del t p) else Inl (OSError, name))"

definition os_mkdir :: "string \<Rightarrow> node \<Rightarrow> exn + node" where
  "os_mkdir name t =
     (case resolve t name of
        None \<Rightarrow> Inl (OSError, name)
      | Some p \<Rightarrow>
          if p \<noteq> [] \<and> isdir_at t (butlast p) \<and> \<not> exists_at t p
          then Inr (put t p (Dir []))
          else Inl (OSError, name))"

definition os_makedirs :: "string \<Rightarrow> node \<Rightarrow> exn + node" where
  "os_makedirs name t =
     (case resolve t name of
        None \<Rightarrow> Inl (OSError, name)
      | Some p \<Rightarrow>
          if \<not> exists_at t p \<and> can_mkpath t p then Inr (mkpath t p)
          else Inl (OSError, name))"

definition shutil_rmtree :: "string \<Rightarrow> node \<Rightarrow> exn + node" where
  "shutil_rmtree name t =
     (case resolve t name of
        None \<Rightarrow> Inl (OSError, name)
      | Some p \<Rightarrow>
          if p \<noteq> [] \<and> isdir_at t p then Inr (del t p) else Inl (OSError, name))"

definition os_listdir :: "string \<Rightarrow> node \<Rightarrow> exn + string list" where
  "os_listdir name t =
     (case resolve t name of
        None \<Rightarrow> Inl (OSError, name)
      | Some p \<Rightarrow>
          (case listdir_at t p of None \<Rightarrow> Inl (OSError, name) | Some ns \<Rightarrow> Inr ns))"

text \<open>
  \<^verbatim>\<open>os.rename\<close>: the source must exist, the parent of the target must be a directory,
  a directory cannot be moved below itself, and an existing target is replaced only by
  a node of its own kind (a directory only when it is empty).  The store is one file
  system: a rename never fails for crossing devices.
\<close>

definition os_rename :: "string \<Rightarrow> string \<Rightarrow> node \<Rightarrow> exn + node" where
  "os_rename src dst t =
     (case (resolve t src, resolve t dst) of
        (Some p, Some q) \<Rightarrow>
          (case lookup t p of
             None \<Rightarrow> Inl (OSError, src)
           | Some n \<Rightarrow>
               if p = q then Inr t
               else if p = [] \<or> q = [] \<or> prefix p q \<or> \<not> isdir_at t (butlast q)
               then Inl (OSError, src)
               else (case (n, lookup t q) of
                       (_, None) \<Rightarrow> Inr (put (del t p) q n)
                     | (File _, Some (File _)) \<Rightarrow> Inr (put (del t p) q n)
                     | (Dir _, Some (Dir [])) \<Rightarrow> Inr (put (del t p) q n)
                     | _ \<Rightarrow> Inl (OSError, src)))
      | _ \<Rightarrow> Inl (OSError, src))"

text \<open>\<^verbatim>\<open>shutil.copytree\<close>: \<^verbatim>\<open>os.makedirs\<close> of the target, then the copy of the tree.\<close>

definition shutil_copytree :: "string \<Rightarrow> string \<Rightarrow> node \<Rightarrow> exn + node" where
  "shutil_copytree src dst t =
     (case resolve t src of
        None \<Rightarrow> Inl (OSError, src)
      | Some p \<Rightarrow>
          (case lookup t p of
             Some (Dir es) \<Rightarrow>
               (case os_makedirs dst t of
                  Inl e \<Rightarrow> Inl e
                | Inr t' \<Rightarrow>
                    (case resolve t dst of
                       None \<Rightarrow> Inl (OSError, dst)
                     | Some q \<Rightarrow> Inr (put t' q (Dir es))))
           | _ \<Rightarrow> Inl (OSError, src)))"

text \<open>\<^verbatim>\<open>shutil.copy2\<close> of a regular file.\<close>

definition shutil_copy2 :: "string \<Rightarrow> string \<Rightarrow> node \<Rightarrow> exn + node" where
  "shutil_copy2 src dst t =
     (case resolve t src of
        None \<Rightarrow> Inl (IOError, src)
      | Some p \<Rightarrow>
          (case lookup t p of
             Some (File content) \<Rightarrow> open_write dst content t
           | _ \<Rightarrow> Inl (IOError, src)))"

definition rstrip_sep :: "string \<Rightarrow> string" where
  "rstrip_sep s = rev (dropWhile (\<lambda>c. c = CHR ''/'') (rev s))"

definition samefile :: "node \<Rightarrow> string \<Rightarrow> string \<Rightarrow> bool" where
  "samefile t a b =
     (case (resolve t a, resolve t b) of
        (Some p, Some q) \<Rightarrow> p = q \<and> exists_at t p
      | _ \<Rightarrow> False)"

definition destinsrc :: "node \<Rightarrow> string \<Rightarrow> string \<Rightarrow> bool" where
  "destinsrc t src dst =
     (case (resolve t src, resolve t dst) of
        (Some p, Some q) \<Rightarrow> prefix p q
      | _ \<Rightarrow> False)"

text \<open>
  \<^verbatim>\<open>shutil.move\<close> (Python 2.7): into an existing directory the source keeps its base
  name and must not be there already; the move is an \<^verbatim>\<open>os.rename\<close>, and when that
  fails a copy followed by the removal of the source.
\<close>

definition shutil_move :: "string \<Rightarrow> string \<Rightarrow> node \<Rightarrow> exn + node" where
  "shutil_move src dst t =
     (if os_path_isdir t dst \<and> samefile t src dst then os_rename src dst t
      else
        let real_dst =
              (if os_path_isdir t dst then os_path_join dst (basename (rstrip_sep src))
               else dst)
        in if os_path_isdir t dst \<and> os_path_exists t real_dst
           then Inl (ShutilError, real_dst)
           else (case os_rename src real_dst t of
                   Inr t' \<Rightarrow> Inr t'
                 | Inl _ \<Rightarrow>
                     if os_path_isdir t src
                     then (if destinsrc t src dst then Inl (ShutilError, src)
                           else (case shutil_copytree src real_dst t of
                                   Inl e \<Rightarrow> Inl e
                                 | Inr t' \<Rightarrow> shutil_rmtree src t'))
                     else (case shutil_copy2 src real_dst t of
                             Inl e \<Rightarrow> Inl e
                           | Inr t' \<Rightarrow> os_remove src t')))"


section \<open>The request and its surroundings\<close>

text \<open>
  What the upload reads from Flask's \<^verbatim>\<open>request\<close>: the two query parameters it
  looks at, the body, whether a \<^verbatim>\<open>Transfer-Encoding\<close> header is present, and the raw
  input stream.
\<close>

record request =
  blueprint_archive_url :: "string option"
  application_file_name :: "string option"
  data :: string
  transfer_encoding :: bool
  input_stream :: string

record config =
  file_server_root :: string
  file_server_base_uri :: string
  file_server_blueprints_folder :: string
  file_server_uploaded_blueprints_folder :: string

record blueprint =
  id' :: string

text \<open>
  The collaborators that are not part of \<^verbatim>\<open>resources.py\<close> are parameters:
  \<^verbatim>\<open>urllib2.urlopen\<close> with the read of its answer, \<^verbatim>\<open>chunked.decode\<close>, the names
  that \<^verbatim>\<open>tempfile\<close> draws, the system's temporary directory, what
  \<^verbatim>\<open>archive_util.unpack_archive\<close> finds in an archive's bytes (\<open>None\<close> when no
  format is recognised), \<^verbatim>\<open>uuid.uuid4\<close>, the codec behind \<^verbatim>\<open>decode('utf-8')\<close>,
  \<^verbatim>\<open>publish_blueprint\<close> of the blueprints manager, \<^verbatim>\<open>archiving.get_archive_type\<close>
  and the encoder of \<^verbatim>\<open>zipfile\<close>.
\<close>

record env =
  request :: request
  config :: config
  urlopen :: "string \<Rightarrow> exn + string"
  chunked_decode :: "string \<Rightarrow> string list"
  mktemp_names :: "string list"
  mkdtemp_names :: "string list"
  gettempdir :: string
  archive_contents :: "string \<Rightarrow> (string \<times> node) list option"
  uuid4 :: string
  decode_utf8 :: "string \<Rightarrow> string option"
  publish_blueprint :: "string \<Rightarrow> string \<Rightarrow> string \<Rightarrow> exn + blueprint"
  get_archive_type :: "string \<Rightarrow> string"
  zip_bytes :: "(string \<times> string) list \<Rightarrow> string"

subsection \<open>\<^verbatim>\<open>tempfile\<close>\<close>

text \<open>
  \<^verbatim>\<open>tempfile.mktemp(dir=d)\<close> returns the first drawn name that does not exist in
  \<open>d\<close> and creates nothing; \<^verbatim>\<open>tempfile.mkdtemp(suffix)\<close> creates the first drawn
  directory that does not exist in the system's temporary directory.
\<close>

fun mktemp_from :: "string \<Rightarrow> string list \<Rightarrow> node \<Rightarrow> exn + string" where
  "mktemp_from dir [] t = Inl (IOError, ''No usable temporary filename found'')"
| "mktemp_from dir (n # ns) t =
     (let file = os_path_join dir (''tmp'' @ n)
      in if \<not> os_path_exists t file then Inr file else mktemp_from dir ns t)"

definition tempfile_mktemp :: "env \<Rightarrow> string \<Rightarrow> node \<Rightarrow> exn + string" where
  "tempfile_mktemp e dir t = mktemp_from dir (mktemp_names e) t"

fun mkdtemp_from :: "string \<Rightarrow> string \<Rightarrow> string list \<Rightarrow> node \<Rightarrow> exn + string \<times> node" where
  "mkdtemp_from dir sfx [] t = Inl (IOError, ''No usable temporary directory name found'')"
| "mkdtemp_from dir sfx (n # ns) t =
     (let file = os_path_join dir (''tmp'' @ n @ sfx)
      in if os_path_exists t file then mkdtemp_from dir sfx ns t
         else (case os_mkdir file t of Inl e \<Rightarrow> Inl e | Inr t' \<Rightarrow> Inr (file, t')))"

definition tempfile_mkdtemp :: "env \<Rightarrow> string \<Rightarrow> node \<Rightarrow> exn + string \<times> node" where
  "tempfile_mkdtemp e sfx t = mkdtemp_from (gettempdir e) sfx (mkdtemp_names e) t"

subsection \<open>\<^verbatim>\<open>archive_util.unpack_archive\<close>\<close>

text \<open>
  The drivers of \<^verbatim>\<open>unpack_archive\<close> copy a directory, or extract what they recognise
  in a file, into the extraction directory; they raise \<^verbatim>\<open>UnrecognizedFormat\<close>
  otherwise.  The extraction directory is the one \<^verbatim>\<open>mkdtemp\<close> has just made, so the
  extracted entries are its whole content.
\<close>

definition unpack_archive :: "env \<Rightarrow> string \<Rightarrow> string \<Rightarrow> node \<Rightarrow> exn + node" where
  "unpack_archive e filename extract_dir t =
     (case resolve t extract_dir of
        None \<Rightarrow> Inl (OSError, extract_dir)
      | Some q \<Rightarrow>
          if \<not> isdir_at t q then Inl (OSError, extract_dir)
          else
            (case resolve t filename of
               None \<Rightarrow> Inl (UnrecognizedFormat, filename)
             | Some p \<Rightarrow>
                 (case lookup t p of
                    None \<Rightarrow> Inl (UnrecognizedFormat, filename)
                  | Some (Dir es) \<Rightarrow> Inr (put t q (Dir es))
                  | Some (File bytes) \<Rightarrow>
                      (case archive_contents e bytes of
                         None \<Rightarrow> Inl (UnrecognizedFormat, filename)
                       | Some es \<Rightarrow> Inr (put t q (Dir es))))))"

subsection \<open>\<^verbatim>\<open>urllib.unquote\<close>\<close>

fun split_percent :: "string \<Rightarrow> string list" where
  "split_percent [] = [[]]"
| "split_percent (c # cs) =
     (if c = CHR ''%'' then [] # split_percent cs
      else (case split_percent cs of [] \<Rightarrow> [[c]] | w # ws \<Rightarrow> (c # w) # ws))"

definition hexdig :: "char \<Rightarrow> nat option" where
  "hexdig c =
     (let n = of_char c :: nat in
      if 48 \<le> n \<and> n \<le> 57 then Some (n - 48)
      else if 65 \<le> n \<and> n \<le> 70 then Some (n - 55)
      else if 97 \<le> n \<and> n \<le> 102 then Some (n - 87)
      else None)"

definition hextochr :: "string \<Rightarrow> char option" where
  "hextochr s =
     (case s of
        [a, b] \<Rightarrow>
          (case (hexdig a, hexdig b) of
             (Some x, Some y) \<Rightarrow> Some (char_of (16 * x + y))
           | _ \<Rightarrow> None)
      | _ \<Rightarrow> None)"

definition unquote_item :: "string \<Rightarrow> string" where
  "unquote_item item =
     (case hextochr (take 2 item) of
        Some c \<Rightarrow> c # drop 2 item
      | None \<Rightarrow> CHR ''%'' # item)"

definition unquote :: "string \<Rightarrow> string" where
  "unquote s =
     (let bits = split_percent s
      in if length bits = 1 then s
         else hd bits @ concat (map unquote_item (tl bits)))"


section \<open>The upload\<close>

text \<open>
  A run threads the file store and raises exceptions.  The \<open>trace\<close> records the
  store after every library call that changed it, oldest first: these are the states
  another process can observe.
\<close>

record world =
  fs :: node
  trace :: "node list"

type_synonym 'a prog = "world \<Rightarrow> (exn + 'a) \<times> world"

definition return :: "'a \<Rightarrow> 'a prog" where
  "return x w = (Inr x, w)"

definition raise :: "exn \<Rightarrow> 'a prog" where
  "raise e w = (Inl e, w)"

definition bind :: "'a prog \<Rightarrow> ('a \<Rightarrow> 'b prog) \<Rightarrow> 'b prog" where
  "bind m f w = (case m w of (Inl e, w') \<Rightarrow> (Inl e, w') | (Inr x, w') \<Rightarrow> f x w')"

definition observe :: "(node \<Rightarrow> 'a) \<Rightarrow> 'a prog" where
  "observe f w = (Inr (f (fs w)), w)"

definition attempt :: "(node \<Rightarrow> exn + 'a) \<Rightarrow> 'a prog" where
  "attempt f w = (f (fs w), w)"

definition exec :: "(node \<Rightarrow> exn + node) \<Rightarrow> unit prog" where
  "exec f w =
     (case f (fs w) of
        Inl e \<Rightarrow> (Inl e, w)
      | Inr t \<Rightarrow> (Inr (), \<lparr>fs = t, trace = trace w @ [t]\<rparr>))"

definition exec_value :: "(node \<Rightarrow> exn + 'a \<times> node) \<Rightarrow> 'a prog" where
  "exec_value f w =
     (case f (fs w) of
        Inl e \<Rightarrow> (Inl e, w)
      | Inr (x, t) \<Rightarrow> (Inr x, \<lparr>fs = t, trace = trace w @ [t]\<rparr>))"

text \<open>
  \<^verbatim>\<open>try: m finally: c\<close> runs \<open>c\<close> after \<open>m\<close> in every case; an exception of \<open>c\<close>
  replaces the outcome of \<open>m\<close>.  \<^verbatim>\<open>try: m except cls, ex: h\<close> runs \<open>h\<close> on the
  message when \<open>m\<close> raises an exception of class \<open>cls\<close>.
\<close>

definition try_finally :: "'a prog \<Rightarrow> unit prog \<Rightarrow> 'a prog" where
  "try_finally m c w =
     (case m w of
        (r, w') \<Rightarrow>
          (case c w' of
             (Inl e, w'') \<Rightarrow> (Inl e, w'')
           | (Inr _, w'') \<Rightarrow> (r, w'')))"

definition try_except :: "'a prog \<Rightarrow> exc_class \<Rightarrow> (string \<Rightarrow> 'a prog) \<Rightarrow> 'a prog" where
  "try_except m cls h w =
     (case m w of
        (Inl (c, msg), w') \<Rightarrow> if c = cls then h msg w' else (Inl (c, msg), w')
      | (Inr x, w') \<Rightarrow> (Inr x, w'))"

definition CONVENTION_APPLICATION_BLUEPRINT_FILE :: string where
  "CONVENTION_APPLICATION_BLUEPRINT_FILE = ''blueprint.yaml''"

subsection \<open>\<^verbatim>\<open>_save_file_locally\<close>\<close>

definition save_file_locally :: "env \<Rightarrow> string \<Rightarrow> unit prog" where
  \<open>save_file_locally e archive_file_name =
     (case blueprint_archive_url (request e) of
        Some blueprint_url \<Rightarrow>
          if data (request e) \<noteq> [] \<or> transfer_encoding (request e)
          then raise (BadParametersError,
                 ''Can't pass both a blueprint URL via query parameters '' @
                 ''and blueprint data via the request body at the same time'')
          else
            (case urlopen e blueprint_url of
               Inr content \<Rightarrow> exec (open_write archive_file_name content)
             | Inl (c, msg) \<Rightarrow>
                 if c = URLError
                 then raise (ParamUrlNotFoundError,
                        ''URL '' @ blueprint_url @
                        '' not found - can't download blueprint archive'')
                 else if c = ValueError
                 then raise (BadParametersError,
                        ''URL '' @ blueprint_url @
                        '' is malformed - can't download blueprint archive'')
                 else raise (c, msg))
      | None \<Rightarrow>
          if transfer_encoding (request e)
          then exec (open_write archive_file_name
                 (concat (chunked_decode e (input_stream (request e)))))
          else if data (request e) = []
          then raise (BadParametersError,
                 ''Missing application archive in request body or '' @
                 ''"blueprint_archive_url" in query parameters'')
          else exec (open_write archive_file_name (data (request e))))\<close>

subsection \<open>\<^verbatim>\<open>_extract_file_to_file_server\<close>\<close>

definition extract_file_to_file_server :: "env \<Rightarrow> string \<Rightarrow> string \<Rightarrow> string prog" where
  "extract_file_to_file_server e root archive_target_path =
     bind (exec_value (tempfile_mkdtemp e ''-blueprint-submit'')) (\<lambda>tempdir.
       try_finally
         (bind
            (try_except
               (exec (unpack_archive e archive_target_path tempdir))
               UnrecognizedFormat
               (\<lambda>_. raise (BadParametersError,
                  ''Blueprint archive is of an unrecognized format. '' @
                  ''Supported formats are: ['zip', 'tar', 'tar.gz', 'tar.bz2']'')))
            (\<lambda>_.
          bind (attempt (os_listdir tempdir)) (\<lambda>archive_file_list.
          bind (observe (\<lambda>t. length archive_file_list \<noteq> 1 \<or>
                  \<not> os_path_isdir t (os_path_join tempdir (archive_file_list ! 0)))) (\<lambda>bad.
            if bad
            then raise (BadParametersError, ''archive must contain exactly 1 directory'')
            else
              let application_dir_base_name = archive_file_list ! 0;
                  generated_app_dir_name = application_dir_base_name @ ''-'' @ uuid4 e;
                  temp_application_dir = os_path_join tempdir application_dir_base_name;
                  temp_application_target_dir = os_path_join tempdir generated_app_dir_name
              in
                bind (exec (shutil_move temp_application_dir temp_application_target_dir)) (\<lambda>_.
                bind (exec (shutil_move temp_application_target_dir root)) (\<lambda>_.
                return generated_app_dir_name))))))
         (exec (shutil_rmtree tempdir)))"

subsection \<open>\<^verbatim>\<open>_extract_application_file\<close>\<close>

definition extract_application_file :: "env \<Rightarrow> string \<Rightarrow> string \<Rightarrow> string prog" where
  "extract_application_file e root application_dir =
     (let full_application_dir = os_path_join root application_dir
      in case application_file_name (request e) of
           Some arg \<Rightarrow>
             (case decode_utf8 e (unquote arg) of
                None \<Rightarrow> raise (UnicodeError, arg)
              | Some file_name \<Rightarrow>
                  bind (observe (\<lambda>t. os_path_isfile t
                          (os_path_join full_application_dir file_name))) (\<lambda>found.
                    if \<not> found
                    then raise (BadParametersError,
                           file_name @ '' does not exist in the application directory'')
                    else return (os_path_join application_dir file_name)))
         | None \<Rightarrow>
             bind (observe (\<lambda>t. os_path_isfile t
                     (os_path_join full_application_dir
                        CONVENTION_APPLICATION_BLUEPRINT_FILE))) (\<lambda>found.
               if \<not> found
               then raise (BadParametersError,
                      ''application directory is missing blueprint.yaml and '' @
                      ''application_file_name query parameter was not passed'')
               else return (os_path_join application_dir
                              CONVENTION_APPLICATION_BLUEPRINT_FILE)))"


subsection \<open>\<^verbatim>\<open>_zip_dir\<close> and \<^verbatim>\<open>_process_plugins\<close>\<close>

text \<open>
  \<^verbatim>\<open>os.walk\<close>, top down: the regular files of a directory in listing order, then
  its subdirectories one after the other.  The result pairs each file's path with
  its bytes.
\<close>

fun os_walk_files :: "string \<Rightarrow> node \<Rightarrow> (string \<times> string) list" where
  "os_walk_files base (File d) = []"
| "os_walk_files base (Dir es) =
     concat (map (\<lambda>x. case snd x of
                         File d \<Rightarrow> [(os_path_join base (fst x), d)]
                       | Dir _ \<Rightarrow> []) es) @
     concat (map (\<lambda>x. case snd x of
                         File _ \<Rightarrow> []
                       | Dir _ \<Rightarrow> os_walk_files (os_path_join base (fst x)) (snd x)) es)"

text \<open>
  \<^verbatim>\<open>zipfile.ZipFile(target, 'w')\<close> opens the target for writing, every file under the
  directory is written under its path from the directory's base name on, and the
  archive is closed: one call that leaves the archive's bytes in the target.
\<close>

definition zip_dir :: "env \<Rightarrow> string \<Rightarrow> string \<Rightarrow> node \<Rightarrow> exn + node" where
  "zip_dir e dir_to_zip target_zip_path t =
     (let plugin_dir_base_name = basename dir_to_zip;
          rootlen = length dir_to_zip - length plugin_dir_base_name;
          entries =
            (case resolve t dir_to_zip of
               None \<Rightarrow> []
             | Some p \<Rightarrow>
                 (case lookup t p of
                    None \<Rightarrow> []
                  | Some n \<Rightarrow> os_walk_files dir_to_zip n))
      in open_write target_zip_path
           (zip_bytes e (map (\<lambda>(fn, d). (drop rootlen fn, d)) entries)) t)"

fun zip_plugins :: "env \<Rightarrow> string \<Rightarrow> string \<Rightarrow> string list \<Rightarrow> unit prog" where
  "zip_plugins e root blueprint_id [] = return ()"
| "zip_plugins e root blueprint_id (plugin_dir # plugins) =
     (let final_zip_name = basename plugin_dir @ ''.zip'';
          target_zip_path =
            os_path_join (os_path_join (os_path_join (os_path_join root ''blueprints'')
              blueprint_id) ''plugins'') final_zip_name
      in bind (exec (zip_dir e plugin_dir target_zip_path)) (\<lambda>_.
           zip_plugins e root blueprint_id plugins))"

definition process_plugins :: "env \<Rightarrow> string \<Rightarrow> string \<Rightarrow> unit prog" where
  "process_plugins e root blueprint_id =
     (let plugins_directory =
            os_path_join (os_path_join (os_path_join root ''blueprints'') blueprint_id)
              ''plugins''
      in bind (observe (\<lambda>t. os_path_isdir t plugins_directory)) (\<lambda>present.
           if \<not> present then return ()
           else
             bind (attempt (os_listdir plugins_directory)) (\<lambda>names.
             bind (observe (\<lambda>t.
                     map (os_path_join plugins_directory)
                       (filter (\<lambda>directory.
                          os_path_isdir t (os_path_join plugins_directory directory))
                          names))) (\<lambda>plugins.
             zip_plugins e root blueprint_id plugins))))"

subsection \<open>\<^verbatim>\<open>_prepare_and_submit_blueprint\<close>\<close>

definition prepare_and_submit_blueprint ::
    "env \<Rightarrow> string \<Rightarrow> string \<Rightarrow> string \<Rightarrow> blueprint prog" where
  "prepare_and_submit_blueprint e root application_dir blueprint_id =
     bind (extract_application_file e root application_dir) (\<lambda>application_file.
       let file_server_base_url = file_server_base_uri (config e);
           dsl_path = file_server_base_url @ ''/'' @ application_file;
           resources_base = file_server_base_url @ ''/''
       in
         try_except
           (bind (attempt (\<lambda>_. publish_blueprint e dsl_path resources_base blueprint_id))
              (\<lambda>bp.
            bind (exec (shutil_move (os_path_join root application_dir)
                    (os_path_join (os_path_join root
                       (file_server_blueprints_folder (config e))) (id' bp)))) (\<lambda>_.
            bind (process_plugins e root (id' bp)) (\<lambda>_.
            return bp))))
           DslParseException
           (\<lambda>message.
              bind (exec (shutil_rmtree (os_path_join root application_dir))) (\<lambda>_.
              raise (InvalidBlueprintError, ''Invalid blueprint - '' @ message))))"

subsection \<open>\<^verbatim>\<open>_move_archive_to_uploaded_blueprints_dir\<close>\<close>

definition read_archive_type :: "env \<Rightarrow> string \<Rightarrow> node \<Rightarrow> exn + string" where
  "read_archive_type e archive_path t =
     (case resolve t archive_path of
        None \<Rightarrow> Inl (IOError, archive_path)
      | Some p \<Rightarrow>
          (case lookup t p of
             Some (File bytes) \<Rightarrow> Inr (get_archive_type e bytes)
           | _ \<Rightarrow> Inl (IOError, archive_path)))"

definition move_archive_to_uploaded_blueprints_dir ::
    "env \<Rightarrow> string \<Rightarrow> string \<Rightarrow> string \<Rightarrow> unit prog" where
  "move_archive_to_uploaded_blueprints_dir e blueprint_id root archive_path =
     bind (observe (\<lambda>t. os_path_exists t archive_path)) (\<lambda>present.
       if \<not> present
       then raise (RuntimeError,
              ''Archive ['' @ archive_path @ ''] doesn't exist - Cannot move '' @
              ''archive to uploaded blueprints directory'')
       else
         let uploaded_blueprint_dir =
               os_path_join (os_path_join root
                 (file_server_uploaded_blueprints_folder (config e))) blueprint_id
         in
           bind (exec (os_makedirs uploaded_blueprint_dir)) (\<lambda>_.
           bind (attempt (read_archive_type e archive_path)) (\<lambda>archive_type.
             let archive_file_name = blueprint_id @ ''.'' @ archive_type
             in exec (shutil_move archive_path
                  (os_path_join uploaded_blueprint_dir archive_file_name)))))"

subsection \<open>\<^verbatim>\<open>do_request\<close>\<close>

definition do_request :: "env \<Rightarrow> string \<Rightarrow> (blueprint \<times> nat) prog" where
  "do_request e blueprint_id =
     (let root = file_server_root (config e)
      in bind (attempt (tempfile_mktemp e root)) (\<lambda>archive_target_path.
           try_finally
             (bind (save_file_locally e archive_target_path) (\<lambda>_.
              bind (extract_file_to_file_server e root archive_target_path)
                (\<lambda>application_dir.
              bind (prepare_and_submit_blueprint e root application_dir blueprint_id)
                (\<lambda>bp.
              bind (move_archive_to_uploaded_blueprints_dir e (id' bp) root
                      archive_target_path) (\<lambda>_.
              return (bp, 201))))))
             (bind (observe (\<lambda>t. os_path_exists t archive_target_path)) (\<lambda>present.
                if present then exec (os_remove archive_target_path) else return ()))))"

section \<open>Example uploads\<close>

text \<open>
  A store with an empty file server root \<^verbatim>\<open>/srv\<close> and an empty \<^verbatim>\<open>/tmp\<close>, and a
  request that carries an archive in its body.  The archive holds one directory
  \<^verbatim>\<open>app\<close> with a \<^verbatim>\<open>blueprint.yaml\<close>; the blueprints manager accepts it.
\<close>

definition ex_request :: request where
  "ex_request =
     \<lparr>blueprint_archive_url = None, application_file_name = None, data = ''PK'',
      transfer_encoding = False, input_stream = []\<rparr>"

definition ex_config :: config where
  "ex_config =
     \<lparr>file_server_root = ''/srv'', file_server_base_uri = ''http://files'',
      file_server_blueprints_folder = ''blueprints'',
      file_server_uploaded_blueprints_folder = ''uploaded-blueprints''\<rparr>"

definition ex_archive :: "(string \<times> node) list" where
  "ex_archive = [(''app'', Dir [(''blueprint.yaml'', File ''x'')])]"

definition ex_env :: env where
  "ex_env =
     \<lparr>request = ex_request, config = ex_config,
      urlopen = (\<lambda>_. Inl (URLError, [])),
      chunked_decode = (\<lambda>s. [s]),
      mktemp_names = [''a''], mkdtemp_names = [''b''], gettempdir = ''/tmp'',
      archive_contents = (\<lambda>_. Some ex_archive),
      uuid4 = ''u'', decode_utf8 = Some,
      publish_blueprint = (\<lambda>_ _ i. Inr \<lparr>id' = i\<rparr>),
      get_archive_type = (\<lambda>_. ''zip''),
      zip_bytes = (\<lambda>_. ''Z'')\<rparr>"

definition ex_store :: node where
  "ex_store = Dir [(''srv'', Dir []), (''tmp'', Dir [])]"

definition ex_world :: world where
  "ex_world = \<lparr>fs = ex_store, trace = []\<rparr>"

definition error_class :: "(exn + 'a) \<times> world \<Rightarrow> exc_class option" where
  "error_class r = (case fst r of Inl (c, _) \<Rightarrow> Some c | Inr _ \<Rightarrow> None)"

text \<open>A request with both a URL and a body, and a request with neither.\<close>

definition ex_env_both :: env where
  "ex_env_both =
     ex_env\<lparr>request := ex_request\<lparr>blueprint_archive_url := Some ''http://example.org/app.zip''\<rparr>\<rparr>"

definition ex_env_none :: env where
  "ex_env_none = ex_env\<lparr>request := ex_request\<lparr>data := []\<rparr>\<rparr>"

text \<open>An archive whose only directory has no \<^verbatim>\<open>blueprint.yaml\<close>.\<close>

definition ex_env_no_yaml :: env where
  "ex_env_no_yaml =
     ex_env\<lparr>archive_contents := (\<lambda>_. Some [(''app'', Dir [(''other.yaml'', File ''x'')])])\<rparr>"

text \<open>
  A store in which the upload has staged \<^verbatim>\<open>/srv/app-u\<close>, with files outside the
  staged directory, and two requests that name such a file as the entry file.
\<close>

definition ex_store_staged :: node where
  "ex_store_staged =
     Dir [(''srv'', Dir [(''app-u'', Dir [(''blueprint.yaml'', File ''x'')]),
                         (''shared'', Dir [(''main.yaml'', File ''y'')])]),
          (''etc'', Dir [(''passwd'', File ''root'')]),
          (''tmp'', Dir [])]"

definition ex_world_staged :: world where
  "ex_world_staged = \<lparr>fs = ex_store_staged, trace = []\<rparr>"

definition ex_env_absolute :: env where
  "ex_env_absolute =
     ex_env\<lparr>request := ex_request\<lparr>application_file_name := Some ''/etc/passwd''\<rparr>\<rparr>"

definition ex_env_parent :: env where
  "ex_env_parent =
     ex_env\<lparr>request := ex_request\<lparr>application_file_name := Some ''..%2Fshared%2Fmain.yaml''\<rparr>\<rparr>"

text \<open>The example upload after \<^verbatim>\<open>_save_file_locally\<close> and after the extraction.\<close>

definition ex_world_saved :: world where
  "ex_world_saved = snd (save_file_locally ex_env ''/srv/tmpa'' ex_world)"

definition ex_world_extracted :: world where
  "ex_world_extracted =
     snd (extract_file_to_file_server ex_env ''/srv'' ''/srv/tmpa'' ex_world_saved)"

text \<open>The example upload with a blueprints manager whose parser rejects the blueprint.\<close>

definition ex_env_rejected :: env where
  "ex_env_rejected =
     ex_env\<lparr>publish_blueprint := (\<lambda>_ _ _. Inl (DslParseException, ''unknown node type''))\<rparr>"

text \<open>Archives with two top-level directories, and with a top-level file.\<close>

definition ex_env_two_dirs :: env where
  "ex_env_two_dirs =
     ex_env\<lparr>archive_contents := (\<lambda>_. Some [(''a'', Dir []), (''b'', Dir [])])\<rparr>"

definition ex_env_top_file :: env where
  "ex_env_top_file =
     ex_env\<lparr>archive_contents := (\<lambda>_. Some [(''blueprint.yaml'', File ''x'')])\<rparr>"

text \<open>
  An archive with a plugin directory \<^verbatim>\<open>plugins/p\<close> next to a directory named
  \<^verbatim>\<open>plugins/p.zip\<close>, where the plugin's archive would have to be written.
\<close>

definition ex_env_plugins :: env where
  "ex_env_plugins =
     ex_env\<lparr>archive_contents := (\<lambda>_. Some
       [(''app'', Dir [(''blueprint.yaml'', File ''x''),
                       (''plugins'', Dir [(''p'', Dir [(''plugin.py'', File ''1'')]),
                                          (''p.zip'', Dir [])])])])\<rparr>"

definition ex_plugins_extracted :: world where
  "ex_plugins_extracted =
     snd (extract_file_to_file_server ex_env_plugins ''/srv'' ''/srv/tmpa'' ex_world_saved)"

definition ex_plugins_placed :: node where
  "ex_plugins_placed =
     Dir [(''srv'',
           Dir [(''tmpa'', File ''PK''),
                (''blueprints'',
                 Dir [(''bp'',
                       Dir [(''blueprint.yaml'', File ''x''),
                            (''plugins'', Dir [(''p'', Dir [(''plugin.py'', File ''1'')]),
                                               (''p.zip'', Dir [])])])])]),
          (''tmp'', Dir [])]"

section \<open>Notions for stating the properties\<close>

text \<open>
  What a process sees at a location without reading a directory: a regular file
  with its bytes, or a directory.
\<close>

fun stat :: "node \<Rightarrow> node" where
  "stat (File d) = File d"
| "stat (Dir es) = Dir []"

definition stat_at :: "node \<Rightarrow> path \<Rightarrow> node option" where
  "stat_at t q = map_option stat (lookup t q)"

text \<open>
  Two stores are the \<open>same_outside\<close> a set of locations when they agree at every
  location that is not at or below one of them.
\<close>

definition same_outside :: "path set \<Rightarrow> node \<Rightarrow> node \<Rightarrow> bool" where
  "same_outside P t t' \<longleftrightarrow> (\<forall>q. (\<forall>p\<in>P. \<not> prefix p q) \<longrightarrow> stat_at t' q = stat_at t q)"







section \<open>Properties of the file store\<close>

text \<open>
  How \<open>lookup\<close> sees the result of \<open>del\<close> and \<open>put\<close>: below the changed location,
  above it, and everywhere else.
\<close>

lemmas alist_simps = update_conv' delete_conv'

lemma update_same_value: "map_of al k = Some v \<Longrightarrow> AList.update k v al = al"
  by (induction al) auto

lemma del_File [simp]: "del (File d) p = File d"
  by (cases p) auto


lemma lookup_del_under: "p \<noteq> [] \<Longrightarrow> prefix p q \<Longrightarrow> lookup (del t p) q = None"
proof (induction t p arbitrary: q rule: del.induct)
  case (1 t) then show ?case by simp
next
  case (2 d c cs) then show ?case by (cases q) auto
next
  case (3 es c) then show ?case by (cases q) (auto simp: alist_simps)
next
  case (4 es c c' cs)
  then show ?case
    by (cases q) (auto simp: alist_simps split: option.splits)
qed

lemma lookup_del_other: "\<not> prefix p q \<Longrightarrow> \<not> prefix q p \<Longrightarrow> lookup (del t p) q = lookup t q"
proof (induction t p arbitrary: q rule: del.induct)
  case (1 t) then show ?case by simp
next
  case (2 d c cs) then show ?case by simp
next
  case (3 es c) then show ?case by (cases q) (auto simp: alist_simps)
next
  case (4 es c c' cs)
  then show ?case
    by (cases q) (auto simp: alist_simps split: option.splits)
qed

lemma lookup_del_above: "strict_prefix q p \<Longrightarrow> lookup (del t p) q = map_option (\<lambda>n. del n (drop (length q) p)) (lookup t q)"
proof (induction t p arbitrary: q rule: del.induct)
  case (1 t) then show ?case by simp
next
  case (2 d c cs) then show ?case by (cases q) auto
next
  case (3 es c) then show ?case by (cases q) (auto simp: alist_simps  split: option.splits)
next
  case (4 es c c' cs)
  then show ?case
    by (cases q) (auto simp: alist_simps split: option.splits)
qed

lemma put_File [simp]: "p \<noteq> [] \<Longrightarrow> put (File d) p v = File d"
  by (cases p) auto

lemma lookup_put_other: "\<not> prefix p q \<Longrightarrow> \<not> prefix q p \<Longrightarrow> lookup (put t p v) q = lookup t q"
proof (induction t p v arbitrary: q rule: put.induct)
  case (1 t v) then show ?case by simp
next
  case (2 d c cs v) then show ?case by simp
next
  case (3 es c v) then show ?case by (cases q) (auto simp: alist_simps)
next
  case (4 es c c' cs v)
  then show ?case
    by (cases q) (auto simp: alist_simps split: option.splits)
qed

lemma lookup_put_above: "strict_prefix q p \<Longrightarrow> lookup (put t p v) q = map_option (\<lambda>n. put n (drop (length q) p) v) (lookup t q)"
proof (induction t p v arbitrary: q rule: put.induct)
  case (1 t v) then show ?case by simp
next
  case (2 d c cs v) then show ?case by (cases q) auto
next
  case (3 es c v) then show ?case by (cases q) (auto simp: alist_simps  split: option.splits)
next
  case (4 es c c' cs v)
  then show ?case
    by (cases q) (auto simp: alist_simps split: option.splits)
qed

lemma lookup_put_under: "p \<noteq> [] \<Longrightarrow> isdir_at t (butlast p) \<Longrightarrow> prefix p q \<Longrightarrow> lookup (put t p v) q = lookup v (drop (length p) q)"
proof (induction t p v arbitrary: q rule: put.induct)
  case (1 t v) then show ?case by simp
next
  case (2 d c cs v) then show ?case by (cases cs) (auto simp: isdir_at_def)
next
  case (3 es c v) then show ?case by (cases q) (auto simp: alist_simps)
next
  case (4 es c c' cs v)
  then show ?case
    by (cases q) (auto simp: alist_simps isdir_at_def split: option.splits)
qed

lemma put_ineffective: "p \<noteq> [] \<Longrightarrow> \<not> isdir_at t (butlast p) \<Longrightarrow> put t p v = t"
proof (induction t p v rule: put.induct)
  case (1 t v) then show ?case by simp
next
  case (2 d c cs v) then show ?case by simp
next
  case (3 es c v) then show ?case by (auto simp: isdir_at_def)
next
  case (4 es c c' cs v)
  then show ?case
    by (auto simp: alist_simps isdir_at_def update_same_value split: option.splits)
qed

lemma del_kind: "del n p = Dir es' \<Longrightarrow> \<exists>es. n = Dir es"
  by (cases n) auto

lemma isdir_del: "isdir_at (del t p) q \<Longrightarrow> isdir_at t q"
proof (cases "p = []")
  case True
  assume "isdir_at (del t p) q"
  with True show ?thesis by simp
next
  case False
  assume d: "isdir_at (del t p) q"
  consider "prefix p q" | "strict_prefix q p" | "\<not> prefix p q" "\<not> prefix q p"
    by (auto simp: strict_prefix_def)
  then show ?thesis
  proof cases
    case 1
    with False d show ?thesis by (simp add: isdir_at_def lookup_del_under)
  next
    case 2
    with d show ?thesis
      by (auto simp: isdir_at_def lookup_del_above split: option.splits node.splits dest: del_kind)
  next
    case 3
    with d show ?thesis by (simp add: isdir_at_def lookup_del_other)
  qed
qed

lemma exists_del: "exists_at (del t p) q \<Longrightarrow> exists_at t q"
proof (cases "p = []")
  case True
  assume "exists_at (del t p) q"
  with True show ?thesis by simp
next
  case False
  assume d: "exists_at (del t p) q"
  consider "prefix p q" | "strict_prefix q p" | "\<not> prefix p q" "\<not> prefix q p"
    by (auto simp: strict_prefix_def)
  then show ?thesis
  proof cases
    case 1
    with False d show ?thesis by (simp add: exists_at_def lookup_del_under)
  next
    case 2
    with d show ?thesis
      by (auto simp: exists_at_def lookup_del_above split: option.splits)
  next
    case 3
    with d show ?thesis by (simp add: exists_at_def lookup_del_other)
  qed
qed

lemma exists_del_self: "p \<noteq> [] \<Longrightarrow> \<not> exists_at (del t p) p"
  by (simp add: exists_at_def lookup_del_under)

text \<open>Resolution only asks which locations are directories.\<close>

lemma walk_mono:
  "(\<And>q. isdir_at t q \<Longrightarrow> isdir_at t' q) \<Longrightarrow> walk t cur cs = Some p \<Longrightarrow> walk t' cur cs = Some p"
  by (induction cs arbitrary: cur) (auto split: if_splits)

lemma resolve_mono:
  "(\<And>q. isdir_at t q \<Longrightarrow> isdir_at t' q) \<Longrightarrow> resolve t s = Some p \<Longrightarrow> resolve t' s = Some p"
  unfolding resolve_def by (rule walk_mono)

lemma resolve_del: "resolve (del t p) s = Some q \<Longrightarrow> resolve t s = Some q"
  by (rule resolve_mono[of "del t p"]) (auto dest: isdir_del)

lemma os_remove_gone: "os_remove name t = Inr t' \<Longrightarrow> \<not> os_path_exists t' name"
  by (auto simp: os_remove_def os_path_exists_def exists_del_self
      split: option.splits if_splits dest!: resolve_del)

lemma shutil_rmtree_gone: "shutil_rmtree name t = Inr t' \<Longrightarrow> \<not> os_path_exists t' name"
  by (auto simp: shutil_rmtree_def os_path_exists_def exists_del_self
      split: option.splits if_splits dest!: resolve_del)

lemma os_remove_error: "os_remove name t = Inl e \<Longrightarrow> e = (OSError, name)"
  by (auto simp: os_remove_def split: option.splits if_splits)

subsection \<open>\<^verbatim>\<open>tempfile.mktemp\<close> returns a name that does not exist\<close>

lemma mktemp_from_fresh: "mktemp_from dir ns t = Inr f \<Longrightarrow> \<not> os_path_exists t f"
  by (induction ns) (auto simp: Let_def split: if_splits)

lemma tempfile_mktemp_fresh: "tempfile_mktemp e dir t = Inr f \<Longrightarrow> \<not> os_path_exists t f"
  by (simp add: tempfile_mktemp_def mktemp_from_fresh)

lemmas prog_defs =
  return_def raise_def bind_def observe_def attempt_def exec_def exec_value_def
  try_finally_def try_except_def

text \<open>The cleanup of \<^verbatim>\<open>do_request\<close>: the temporary archive is gone afterwards, unless \<^verbatim>\<open>os.remove\<close> raised.\<close>

lemma cleanup_archive:
  assumes "bind (observe (\<lambda>t. os_path_exists t a))
             (\<lambda>present. if present then exec (os_remove a) else return ()) w = (r, w')"
  shows "(r = Inr () \<and> \<not> os_path_exists (fs w') a) \<or> (r = Inl (OSError, a) \<and> w' = w)"
proof (cases "os_path_exists (fs w) a")
  case False
  with assms show ?thesis by (auto simp: prog_defs)
next
  case True
  show ?thesis
  proof (cases "os_remove a (fs w)")
    case (Inl e)
    with True assms show ?thesis by (auto simp: prog_defs dest: os_remove_error)
  next
    case (Inr t')
    with True assms show ?thesis by (auto simp: prog_defs dest: os_remove_gone)
  qed
qed

lemma do_request_cleanup:
  assumes "tempfile_mktemp e (file_server_root (config e)) (fs w) = Inr archive"
  shows "\<not> os_path_exists (fs (snd (do_request e blueprint_id w))) archive
         \<or> fst (do_request e blueprint_id w) = Inl (OSError, archive)"
proof -
  define body where "body =
     (bind (save_file_locally e archive) (\<lambda>_.
              bind (extract_file_to_file_server e (file_server_root (config e)) archive)
                (\<lambda>application_dir.
              bind (prepare_and_submit_blueprint e (file_server_root (config e)) application_dir blueprint_id)
                (\<lambda>bp.
              bind (move_archive_to_uploaded_blueprints_dir e (id' bp) (file_server_root (config e))
                      archive) (\<lambda>_.
              return (bp, 201::nat))))))"
  define c where "c = bind (observe (\<lambda>t. os_path_exists t archive))
             (\<lambda>present. if present then exec (os_remove archive) else return ())"
  have d: "do_request e blueprint_id w = try_finally body c w"
    using assms by (simp add: do_request_def Let_def bind_def attempt_def body_def c_def)
  obtain r1 w1 where b: "body w = (r1, w1)" by (cases "body w")
  obtain r2 w2 where c2: "c w1 = (r2, w2)" by (cases "c w1")
  from cleanup_archive[OF c2[unfolded c_def]]
  show ?thesis unfolding d using b c2
    by (auto simp: try_finally_def)
qed

lemmas ex_defs =
  ex_env_def ex_request_def ex_config_def ex_archive_def ex_store_def ex_world_def

section \<open>Acquisition\<close>

text \<open>
  Claim C3.  A request that carries the query parameter \<^verbatim>\<open>blueprint_archive_url\<close>
  together with a body (\<^verbatim>\<open>request.data\<close> is not empty, or a \<^verbatim>\<open>Transfer-Encoding\<close>
  header announces a chunked body) is rejected with \<open>BadParametersError\<close>, the
  class the specification calls InvalidParameterError, whatever the URL and the
  body are.  \<^verbatim>\<open>_save_file_locally\<close> raises before it opens the URL or any file, and
  \<^verbatim>\<open>do_request\<close> leaves the store and its trace as they were: nothing was written.
\<close>

theorem both_sources_rejected:
  assumes "blueprint_archive_url (request e) = Some url"
    and "data (request e) \<noteq> [] \<or> transfer_encoding (request e)"
  shows "save_file_locally e name w =
           (Inl (BadParametersError,
              ''Can't pass both a blueprint URL via query parameters '' @
              ''and blueprint data via the request body at the same time''), w)
         \<and> snd (do_request e blueprint_id w) = w
         \<and> (tempfile_mktemp e (file_server_root (config e)) (fs w) = Inr name \<longrightarrow>
              fst (do_request e blueprint_id w) =
                Inl (BadParametersError,
                  ''Can't pass both a blueprint URL via query parameters '' @
                  ''and blueprint data via the request body at the same time''))"
proof -
  have s: "\<And>name w. save_file_locally e name w =
           (Inl (BadParametersError,
              ''Can't pass both a blueprint URL via query parameters '' @
              ''and blueprint data via the request body at the same time''), w)"
    using assms by (auto simp: save_file_locally_def raise_def)
  have "snd (do_request e blueprint_id w) = w"
    by (auto simp: do_request_def Let_def bind_def attempt_def try_finally_def s observe_def
        return_def dest: tempfile_mktemp_fresh split: sum.splits prod.splits)
  moreover have "tempfile_mktemp e (file_server_root (config e)) (fs w) = Inr name \<Longrightarrow>
         fst (do_request e blueprint_id w) =
           Inl (BadParametersError,
              ''Can't pass both a blueprint URL via query parameters '' @
              ''and blueprint data via the request body at the same time'')"
    by (auto simp: do_request_def Let_def bind_def attempt_def try_finally_def s observe_def
        return_def dest: tempfile_mktemp_fresh split: sum.splits prod.splits)
  ultimately show ?thesis using s by blast
qed

theorem both_sources_rejected_witness:
  "blueprint_archive_url (request ex_env_both) = Some ''http://example.org/app.zip''
   \<and> data (request ex_env_both) \<noteq> []
   \<and> tempfile_mktemp ex_env_both (file_server_root (config ex_env_both)) (fs ex_world)
       = Inr ''/srv/tmpa''
   \<and> do_request ex_env_both ''bp'' ex_world =
       (Inl (BadParametersError,
          ''Can't pass both a blueprint URL via query parameters '' @
          ''and blueprint data via the request body at the same time''), ex_world)"
proof -
  have u: "blueprint_archive_url (request ex_env_both) = Some ''http://example.org/app.zip''"
    by (simp add: ex_env_both_def ex_defs)
  have d: "data (request ex_env_both) \<noteq> [] \<or> transfer_encoding (request ex_env_both)"
    by (simp add: ex_env_both_def ex_defs)
  have m: "tempfile_mktemp ex_env_both (file_server_root (config ex_env_both)) (fs ex_world)
       = Inr ''/srv/tmpa''"
    by code_simp
  from both_sources_rejected[OF u d, of "''/srv/tmpa''" ex_world "''bp''"] m
  have "do_request ex_env_both ''bp'' ex_world =
       (Inl (BadParametersError,
          ''Can't pass both a blueprint URL via query parameters '' @
          ''and blueprint data via the request body at the same time''), ex_world)"
    by (simp add: prod_eq_iff)
  with u m show ?thesis by (simp add: ex_env_both_def ex_defs)
qed

text \<open>
  Claim C8, as stated, does not hold: a request without URL parameter, body and
  \<^verbatim>\<open>Transfer-Encoding\<close> header is rejected with the same exception class as a
  request with both a URL and a body.
\<close>

theorem missing_input_kind_counterexample:
  "\<not> (error_class (save_file_locally ex_env_none ''/srv/tmpa'' ex_world)
        \<noteq> error_class (save_file_locally ex_env_both ''/srv/tmpa'' ex_world))"
  by code_simp

text \<open>
  Claim C8, amended.  A request without URL parameter, without body and without
  \<^verbatim>\<open>Transfer-Encoding\<close> header is rejected with \<open>BadParametersError\<close>, the class
  that also reports a malformed or ambiguous source; only the message tells the two
  apart.  Nothing is written.
\<close>

theorem missing_input_rejected:
  assumes "blueprint_archive_url (request e) = None"
    and "data (request e) = []"
    and "\<not> transfer_encoding (request e)"
  shows "save_file_locally e name w =
           (Inl (BadParametersError,
              ''Missing application archive in request body or '' @
              ''\"blueprint_archive_url\" in query parameters''), w)"
  using assms by (simp add: save_file_locally_def raise_def)


theorem missing_input_rejected_witness:
  "blueprint_archive_url (request ex_env_none) = None
   \<and> data (request ex_env_none) = []
   \<and> \<not> transfer_encoding (request ex_env_none)
   \<and> error_class (save_file_locally ex_env_none ''/srv/tmpa'' ex_world) = Some BadParametersError
   \<and> snd (save_file_locally ex_env_none ''/srv/tmpa'' ex_world) = ex_world"
proof -
  have u: "blueprint_archive_url (request ex_env_none) = None"
    and d: "data (request ex_env_none) = []"
    and c: "\<not> transfer_encoding (request ex_env_none)"
    by (simp_all add: ex_env_none_def ex_defs)
  from missing_input_rejected[OF u d c, of "''/srv/tmpa''" ex_world] u d c
  show ?thesis by (simp add: error_class_def)
qed

section \<open>Locating the entry file\<close>

text \<open>
  Claim C10.  When the request names the entry file, \<^verbatim>\<open>_extract_application_file\<close>
  percent-decodes the name, joins it to the staged directory with
  \<^verbatim>\<open>os.path.join\<close> and asks only whether the joined path is a regular file.  There is
  no check that the file lies inside the staged directory: whenever the joined path
  is a file, wherever it resolves to, the function returns the join of the
  directory name and the decoded name instead of raising.
\<close>

theorem locator_has_no_containment_check:
  assumes "application_file_name (request e) = Some arg"
    and "decode_utf8 e (unquote arg) = Some name"
    and "os_path_isfile (fs w) (os_path_join (os_path_join root application_dir) name)"
  shows "extract_application_file e root application_dir w =
           (Inr (os_path_join application_dir name), w)"
  using assms by (simp add: extract_application_file_def Let_def prog_defs)

text \<open>
  The witness names \<^verbatim>\<open>..%2Fshared%2Fmain.yaml\<close>: decoded and joined to the staged
  directory \<^verbatim>\<open>/srv/app-u\<close> it resolves to \<^verbatim>\<open>/srv/shared/main.yaml\<close>, outside the
  staged directory, and is accepted.
\<close>

theorem locator_has_no_containment_check_witness:
  "application_file_name (request ex_env_parent) = Some ''..%2Fshared%2Fmain.yaml''
   \<and> decode_utf8 ex_env_parent (unquote ''..%2Fshared%2Fmain.yaml'') = Some ''../shared/main.yaml''
   \<and> os_path_isfile (fs ex_world_staged)
        (os_path_join (os_path_join ''/srv'' ''app-u'') ''../shared/main.yaml'')
   \<and> resolve (fs ex_world_staged) (os_path_join (os_path_join ''/srv'' ''app-u'') ''../shared/main.yaml'')
        = Some [''srv'', ''shared'', ''main.yaml'']
   \<and> \<not> prefix [''srv'', ''app-u''] [''srv'', ''shared'', ''main.yaml'']
   \<and> extract_application_file ex_env_parent ''/srv'' ''app-u'' ex_world_staged =
        (Inr ''app-u/../shared/main.yaml'', ex_world_staged)"
proof -
  have a: "application_file_name (request ex_env_parent) = Some ''..%2Fshared%2Fmain.yaml''"
    by code_simp
  have b: "decode_utf8 ex_env_parent (unquote ''..%2Fshared%2Fmain.yaml'') = Some ''../shared/main.yaml''"
    by code_simp
  have c: "os_path_isfile (fs ex_world_staged)
        (os_path_join (os_path_join ''/srv'' ''app-u'') ''../shared/main.yaml'')"
    by code_simp
  have d: "resolve (fs ex_world_staged) (os_path_join (os_path_join ''/srv'' ''app-u'') ''../shared/main.yaml'')
        = Some [''srv'', ''shared'', ''main.yaml'']"
    by code_simp
  have e: "os_path_join ''app-u'' ''../shared/main.yaml'' = ''app-u/../shared/main.yaml''"
    by code_simp
  from locator_has_no_containment_check[OF a b c] a b c d e
  show ?thesis by simp
qed

text \<open>
  Claim C9.  The locator decodes the name and fails when the joined path is not a
  file, but it does not always return a path relative to the store root, as the
  claim and the comment in the source (\<^verbatim>\<open>return relative path from the file server
  root\<close>) say.  For the entry file name \<^verbatim>\<open>/etc/passwd\<close>, \<^verbatim>\<open>os.path.join\<close> drops the
  staged directory twice: the lookup finds \<^verbatim>\<open>/etc/passwd\<close> and the function returns
  the absolute path \<^verbatim>\<open>/etc/passwd\<close>.
\<close>

theorem locator_returns_absolute_path:
  "extract_application_file ex_env_absolute ''/srv'' ''app-u'' ex_world_staged =
     (Inr ''/etc/passwd'', ex_world_staged)
   \<and> isabs ''/etc/passwd''"
  by code_simp

section \<open>Failed uploads\<close>

text \<open>
  Claim C1.  The upload removes its temporary archive (\<^verbatim>\<open>finally\<close> in
  \<^verbatim>\<open>do_request\<close>), its extraction directory (\<^verbatim>\<open>finally\<close> in
  \<^verbatim>\<open>_extract_file_to_file_server\<close>) and, when the parser rejects the blueprint, the
  staged directory.  It misses the staged directory when locating the entry file
  fails: that call stands before the \<^verbatim>\<open>try\<close> of \<^verbatim>\<open>_prepare_and_submit_blueprint\<close>.
  For an archive whose directory has no \<^verbatim>\<open>blueprint.yaml\<close> the request fails with
  \<open>BadParametersError\<close> and the staged directory \<^verbatim>\<open>/srv/app-u\<close> stays in the store.
\<close>

theorem failed_locate_leaves_staged_directory:
  "fst (do_request ex_env_no_yaml ''bp'' ex_world) =
     Inl (BadParametersError,
       ''application directory is missing blueprint.yaml and '' @
       ''application_file_name query parameter was not passed'')
   \<and> \<not> os_path_exists ex_store ''/srv/app-u''
   \<and> os_path_isdir (fs (snd (do_request ex_env_no_yaml ''bp'' ex_world))) ''/srv/app-u''
   \<and> \<not> os_path_exists (fs (snd (do_request ex_env_no_yaml ''bp'' ex_world))) ''/srv/blueprints/bp''
   \<and> \<not> os_path_exists (fs (snd (do_request ex_env_no_yaml ''bp'' ex_world))) ''/srv/tmpa''"
  by code_simp

section \<open>The temporary archive\<close>

text \<open>
  Claim C6, as stated, does not hold: in the example upload the extraction succeeds
  and the temporary archive \<^verbatim>\<open>/srv/tmpa\<close> is still in the store afterwards.
\<close>

theorem archive_kept_after_extraction_counterexample:
  "fst (extract_file_to_file_server ex_env ''/srv'' ''/srv/tmpa'' ex_world_saved) = Inr ''app-u''
   \<and> os_path_isfile (fs ex_world_extracted) ''/srv/tmpa''"
  by code_simp

text \<open>
  Claim C6, amended.  The temporary archive is needed after the extraction:
  \<^verbatim>\<open>_move_archive_to_uploaded_blueprints_dir\<close> raises \<open>RuntimeError\<close> when it is
  gone.  It is removed from its temporary path when \<^verbatim>\<open>do_request\<close> ends, by the move
  of step 7 or by the \<^verbatim>\<open>finally\<close> clause: after \<^verbatim>\<open>do_request\<close>, whether it returned or
  raised, the temporary path does not exist, unless \<^verbatim>\<open>os.remove\<close> itself raised
  \<open>OSError\<close> for it.
\<close>

theorem archive_removed_when_request_ends:
  "(\<not> os_path_exists (fs w) archive_path \<longrightarrow>
      move_archive_to_uploaded_blueprints_dir e blueprint_id root archive_path w =
        (Inl (RuntimeError,
           ''Archive ['' @ archive_path @ ''] doesn't exist - Cannot move '' @
           ''archive to uploaded blueprints directory''), w))
   \<and> (tempfile_mktemp e (file_server_root (config e)) (fs w) = Inr archive_path \<longrightarrow>
        \<not> os_path_exists (fs (snd (do_request e blueprint_id w))) archive_path
        \<or> fst (do_request e blueprint_id w) = Inl (OSError, archive_path))"
  using do_request_cleanup[of e w archive_path blueprint_id]
  by (auto simp: move_archive_to_uploaded_blueprints_dir_def prog_defs)

theorem archive_removed_when_request_ends_witness:
  "tempfile_mktemp ex_env (file_server_root (config ex_env)) (fs ex_world) = Inr ''/srv/tmpa''
   \<and> fst (do_request ex_env ''bp'' ex_world) = Inr (\<lparr>id' = ''bp''\<rparr>, 201)
   \<and> \<not> os_path_exists (fs (snd (do_request ex_env ''bp'' ex_world))) ''/srv/tmpa''
   \<and> \<not> os_path_exists (fs ex_world) ''/srv/tmpa''
   \<and> error_class (move_archive_to_uploaded_blueprints_dir ex_env ''bp'' ''/srv'' ''/srv/tmpa'' ex_world)
       = Some RuntimeError"
proof -
  have m: "tempfile_mktemp ex_env (file_server_root (config ex_env)) (fs ex_world) = Inr ''/srv/tmpa''"
    by code_simp
  have r: "fst (do_request ex_env ''bp'' ex_world) = Inr (\<lparr>id' = ''bp''\<rparr>, 201)"
    by code_simp
  have n: "\<not> os_path_exists (fs ex_world) ''/srv/tmpa''"
    by code_simp
  from archive_removed_when_request_ends[of ex_world "''/srv/tmpa''" ex_env "''bp''" "''/srv''"] m r n
  show ?thesis by (simp add: error_class_def)
qed

subsection \<open>What \<open>put\<close> changes\<close>

lemma put_kind: "r \<noteq> [] \<Longrightarrow> (\<exists>es. put n r v = Dir es) \<longleftrightarrow> (\<exists>es. n = Dir es)"
  by (cases "(n, r, v)" rule: put.cases) (auto split: option.splits)

lemma lookup_put_self: "p \<noteq> [] \<Longrightarrow> isdir_at t (butlast p) \<Longrightarrow> lookup (put t p v) p = Some v"
  by (simp add: lookup_put_under)

lemma isdir_put:
  assumes "p \<noteq> []" "isdir_at t (butlast p)"
  shows "isdir_at (put t p v) q =
           (if prefix p q then isdir_at v (drop (length p) q) else isdir_at t q)"
proof -
  consider "prefix p q" | "strict_prefix q p" | "\<not> prefix p q" "\<not> prefix q p"
    by (auto simp: strict_prefix_def)
  then show ?thesis
  proof cases
    case 1
    with assms show ?thesis by (simp add: isdir_at_def lookup_put_under)
  next
    case 2
    then have np: "\<not> prefix p q" and r: "drop (length q) p \<noteq> []"
      by (auto simp: strict_prefix_def prefix_def)
    show ?thesis
    proof (cases "lookup t q")
      case None
      with 2 np show ?thesis by (simp add: isdir_at_def lookup_put_above)
    next
      case (Some n)
      with 2 np put_kind[OF r, of n v] show ?thesis
        by (cases n; cases "put n (drop (length q) p) v") (auto simp: isdir_at_def lookup_put_above)
    qed
  next
    case 3
    then show ?thesis by (simp add: isdir_at_def lookup_put_other)
  qed
qed

lemma exists_put:
  assumes "p \<noteq> []" "isdir_at t (butlast p)"
  shows "exists_at (put t p v) q =
           (if prefix p q then exists_at v (drop (length p) q) else exists_at t q)"
proof -
  consider "prefix p q" | "strict_prefix q p" | "\<not> prefix p q" "\<not> prefix q p"
    by (auto simp: strict_prefix_def)
  then show ?thesis
  proof cases
    case 1
    with assms show ?thesis by (simp add: exists_at_def lookup_put_under)
  next
    case 2
    then have np: "\<not> prefix p q"
      by (auto simp: strict_prefix_def prefix_def)
    with 2 show ?thesis
      by (cases "lookup t q") (auto simp: exists_at_def lookup_put_above)
  next
    case 3
    then show ?thesis by (simp add: exists_at_def lookup_put_other)
  qed
qed

lemma isdir_exists: "isdir_at t p \<Longrightarrow> exists_at t p"
  by (auto simp: isdir_at_def exists_at_def split: option.splits)

lemma lookup_prefix_exists: "lookup t (p @ r) = Some n \<Longrightarrow> \<exists>m. lookup t p = Some m"
  by (induction t p rule: lookup.induct) (auto split: option.splits)

lemma not_exists_under: "\<not> exists_at t p \<Longrightarrow> prefix p q \<Longrightarrow> \<not> exists_at t q"
proof -
  assume a: "\<not> exists_at t p" and "prefix p q"
  then obtain r where q: "q = p @ r" by (auto simp: prefix_def)
  show ?thesis
  proof (cases "lookup t (p @ r)")
    case None
    with q show ?thesis by (simp add: exists_at_def)
  next
    case (Some n)
    from lookup_prefix_exists[OF Some] a show ?thesis by (auto simp: exists_at_def)
  qed
qed

lemma lookup_Dir_Nil: "lookup (Dir []) r = (if r = [] then Some (Dir []) else None)"
  by (cases r) auto

text \<open>A new empty directory keeps every directory, so every path resolves as before.\<close>

lemma isdir_put_fresh:
  assumes "p \<noteq> []" "isdir_at t (butlast p)" "\<not> exists_at t p" "isdir_at t q"
  shows "isdir_at (put t p v) q"
proof -
  from assms(3,4) have "\<not> prefix p q"
    using not_exists_under isdir_exists by blast
  with assms show ?thesis by (simp add: isdir_put)
qed

lemma resolve_put_fresh:
  assumes "p \<noteq> []" "isdir_at t (butlast p)" "\<not> exists_at t p" "resolve t s = Some q"
  shows "resolve (put t p v) s = Some q"
  using assms(4) by (rule resolve_mono[rotated]) (rule isdir_put_fresh[OF assms(1-3)])

subsection \<open>\<^verbatim>\<open>tempfile.mkdtemp\<close>\<close>

lemma os_mkdir_result:
  "os_mkdir name t = Inr t' \<Longrightarrow>
     \<exists>p. resolve t name = Some p \<and> p \<noteq> [] \<and> isdir_at t (butlast p) \<and> \<not> exists_at t p
        \<and> t' = put t p (Dir [])"
  by (auto simp: os_mkdir_def split: option.splits if_splits)

lemma mkdtemp_from_result:
  "mkdtemp_from dir sfx ns t = Inr (name, t') \<Longrightarrow>
     \<exists>p. resolve t name = Some p \<and> p \<noteq> [] \<and> isdir_at t (butlast p) \<and> \<not> exists_at t p
        \<and> t' = put t p (Dir [])"
  by (induction ns) (auto simp: Let_def split: if_splits sum.splits dest: os_mkdir_result)

lemma tempfile_mkdtemp_result:
  "tempfile_mkdtemp e sfx t = Inr (name, t') \<Longrightarrow>
     \<exists>p. resolve t name = Some p \<and> p \<noteq> [] \<and> isdir_at t (butlast p) \<and> \<not> exists_at t p
        \<and> t' = put t p (Dir [])"
  unfolding tempfile_mkdtemp_def by (rule mkdtemp_from_result)

subsection \<open>The classes of the exceptions that the library calls raise\<close>

lemma open_write_error: "open_write name c t = Inl e \<Longrightarrow> fst e = IOError"
  by (auto simp: open_write_def split: option.splits if_splits)

lemma shutil_rmtree_error: "shutil_rmtree name t = Inl e \<Longrightarrow> fst e = OSError"
  by (auto simp: shutil_rmtree_def split: option.splits if_splits)

lemma os_makedirs_error: "os_makedirs name t = Inl e \<Longrightarrow> fst e = OSError"
  by (auto simp: os_makedirs_def split: option.splits if_splits)

lemma os_rename_error: "os_rename a b t = Inl e \<Longrightarrow> fst e = OSError"
  by (auto simp: os_rename_def split: option.splits if_splits node.splits list.splits prod.splits)

lemma shutil_copytree_error: "shutil_copytree a b t = Inl e \<Longrightarrow> fst e = OSError"
  by (auto simp: shutil_copytree_def split: option.splits if_splits node.splits sum.splits
      dest: os_makedirs_error)

lemma shutil_copy2_error: "shutil_copy2 a b t = Inl e \<Longrightarrow> fst e = IOError"
  by (auto simp: shutil_copy2_def split: option.splits if_splits node.splits
      dest: open_write_error)

lemma shutil_move_error:
  "shutil_move a b t = Inl e \<Longrightarrow> fst e = OSError \<or> fst e = IOError \<or> fst e = ShutilError"
  unfolding shutil_move_def Let_def
  by (auto split: if_splits sum.splits
      dest: os_rename_error shutil_copytree_error shutil_copy2_error shutil_rmtree_error
        os_remove_error)

lemma os_listdir_error: "os_listdir name t = Inl e \<Longrightarrow> fst e = OSError"
  by (auto simp: os_listdir_def split: option.splits if_splits)

lemma extract_application_file_state:
  "snd (extract_application_file e root application_dir w) = w"
  by (auto simp: extract_application_file_def Let_def prog_defs split: option.splits)

section \<open>Rejected blueprints\<close>

text \<open>
  Claim C5.  When \<^verbatim>\<open>publish_blueprint\<close> raises \<open>DslParseException\<close> with a message,
  \<^verbatim>\<open>_prepare_and_submit_blueprint\<close> raises \<open>InvalidBlueprintError\<close> (the
  specification's InvalidDefinitionError) whose message is \<^verbatim>\<open>Invalid blueprint - \<close>
  followed by the parser's message.  Before that it removes the staged directory in
  one \<^verbatim>\<open>shutil.rmtree\<close>, the only change of the store: the staged directory no longer
  exists, and nothing exists afterwards that did not exist before, so no directory
  has been created under the permanent path or anywhere else.  The staged directory
  is assumed to be a directory other than the root of the file system, as it is
  after the extraction.
\<close>

theorem parser_rejection_rolls_back:
  assumes "fst (extract_application_file e root application_dir w) = Inr application_file"
    and "publish_blueprint e (file_server_base_uri (config e) @ ''/'' @ application_file)
           (file_server_base_uri (config e) @ ''/'') blueprint_id
         = Inl (DslParseException, message)"
    and "os_path_isdir (fs w) (os_path_join root application_dir)"
    and "resolve (fs w) (os_path_join root application_dir) \<noteq> Some []"
  shows "\<exists>t'. prepare_and_submit_blueprint e root application_dir blueprint_id w =
                (Inl (InvalidBlueprintError, ''Invalid blueprint - '' @ message),
                 \<lparr>fs = t', trace = trace w @ [t']\<rparr>)
              \<and> \<not> os_path_exists t' (os_path_join root application_dir)
              \<and> (\<forall>q. exists_at t' q \<longrightarrow> exists_at (fs w) q)
              \<and> (\<forall>s. os_path_exists t' s \<longrightarrow> os_path_exists (fs w) s)"
proof -
  from assms(3,4) obtain p where p: "resolve (fs w) (os_path_join root application_dir) = Some p"
    "p \<noteq> []" "isdir_at (fs w) p"
    by (auto simp: os_path_isdir_def split: option.splits)
  then have rm: "shutil_rmtree (os_path_join root application_dir) (fs w) = Inr (del (fs w) p)"
    by (simp add: shutil_rmtree_def)
  have loc: "extract_application_file e root application_dir w = (Inr application_file, w)"
    using assms(1) extract_application_file_state[of e root application_dir w]
    by (simp add: prod_eq_iff)
  have run: "prepare_and_submit_blueprint e root application_dir blueprint_id w =
                (Inl (InvalidBlueprintError, ''Invalid blueprint - '' @ message),
                 \<lparr>fs = del (fs w) p, trace = trace w @ [del (fs w) p]\<rparr>)"
    using loc assms(2) rm
    by (simp add: prepare_and_submit_blueprint_def Let_def prog_defs)
  have gone: "\<not> os_path_exists (del (fs w) p) (os_path_join root application_dir)"
    using rm by (rule shutil_rmtree_gone)
  have mono: "\<forall>q. exists_at (del (fs w) p) q \<longrightarrow> exists_at (fs w) q"
    by (auto dest: exists_del)
  have smono: "\<forall>s. os_path_exists (del (fs w) p) s \<longrightarrow> os_path_exists (fs w) s"
  proof (intro allI impI)
    fix s assume "os_path_exists (del (fs w) p) s"
    then obtain q where q: "resolve (del (fs w) p) s = Some q" "exists_at (del (fs w) p) q"
      by (auto simp: os_path_exists_def split: option.splits)
    from resolve_del[OF q(1)] exists_del[OF q(2)]
    show "os_path_exists (fs w) s" by (simp add: os_path_exists_def)
  qed
  from run gone mono smono show ?thesis by blast
qed

theorem parser_rejection_rolls_back_witness:
  "fst (extract_application_file ex_env_rejected ''/srv'' ''app-u'' ex_world_extracted)
     = Inr ''app-u/blueprint.yaml''
   \<and> publish_blueprint ex_env_rejected
        (file_server_base_uri (config ex_env_rejected) @ ''/'' @ ''app-u/blueprint.yaml'')
        (file_server_base_uri (config ex_env_rejected) @ ''/'') ''bp''
      = Inl (DslParseException, ''unknown node type'')
   \<and> os_path_isdir (fs ex_world_extracted) (os_path_join ''/srv'' ''app-u'')
   \<and> resolve (fs ex_world_extracted) (os_path_join ''/srv'' ''app-u'') \<noteq> Some []
   \<and> fst (prepare_and_submit_blueprint ex_env_rejected ''/srv'' ''app-u'' ''bp'' ex_world_extracted)
      = Inl (InvalidBlueprintError, ''Invalid blueprint - unknown node type'')
   \<and> \<not> os_path_exists
         (fs (snd (prepare_and_submit_blueprint ex_env_rejected ''/srv'' ''app-u'' ''bp''
            ex_world_extracted))) ''/srv/app-u''
   \<and> \<not> os_path_exists
         (fs (snd (prepare_and_submit_blueprint ex_env_rejected ''/srv'' ''app-u'' ''bp''
            ex_world_extracted))) ''/srv/blueprints/bp''"
proof -
  have a: "fst (extract_application_file ex_env_rejected ''/srv'' ''app-u'' ex_world_extracted)
     = Inr ''app-u/blueprint.yaml''"
    by code_simp
  have b: "publish_blueprint ex_env_rejected
        (file_server_base_uri (config ex_env_rejected) @ ''/'' @ ''app-u/blueprint.yaml'')
        (file_server_base_uri (config ex_env_rejected) @ ''/'') ''bp''
      = Inl (DslParseException, ''unknown node type'')"
    by code_simp
  have c: "os_path_isdir (fs ex_world_extracted) (os_path_join ''/srv'' ''app-u'')"
    by code_simp
  have d: "resolve (fs ex_world_extracted) (os_path_join ''/srv'' ''app-u'') \<noteq> Some []"
    by code_simp
  have n: "\<not> os_path_exists (fs ex_world_extracted) ''/srv/blueprints/bp''"
    by code_simp
  have j: "os_path_join ''/srv'' ''app-u'' = ''/srv/app-u''"
    by code_simp
  from parser_rejection_rolls_back[OF a b c d] obtain t' where
    t: "prepare_and_submit_blueprint ex_env_rejected ''/srv'' ''app-u'' ''bp'' ex_world_extracted =
                (Inl (InvalidBlueprintError, ''Invalid blueprint - '' @ ''unknown node type''),
                 \<lparr>fs = t', trace = trace ex_world_extracted @ [t']\<rparr>)"
    and g: "\<not> os_path_exists t' (os_path_join ''/srv'' ''app-u'')"
    and s: "\<forall>s. os_path_exists t' s \<longrightarrow> os_path_exists (fs ex_world_extracted) s"
    by blast
  from s n have "\<not> os_path_exists t' ''/srv/blueprints/bp''" by blast
  with a b c d t g j show ?thesis by simp
qed

section \<open>Structural validation\<close>

lemma isdir_at_Dir: "isdir_at (Dir es) []"
  by (simp add: isdir_at_def)

lemma unpack_archive_result:
  "unpack_archive e filename extract_dir t = Inr t' \<Longrightarrow>
     \<exists>q es. resolve t extract_dir = Some q \<and> isdir_at t q \<and> t' = put t q (Dir es)"
  by (auto simp: unpack_archive_def split: option.splits if_splits node.splits)

text \<open>
  After \<^verbatim>\<open>mkdtemp\<close> and a successful \<^verbatim>\<open>unpack_archive\<close> the extraction directory is
  still a directory under its name, so the \<^verbatim>\<open>rmtree\<close> of the \<^verbatim>\<open>finally\<close> clause succeeds.
\<close>

lemma tempdir_after_unpack:
  assumes mk: "tempfile_mkdtemp e sfx t = Inr (tempdir, t1)"
    and un: "unpack_archive e archive tempdir t1 = Inr t2"
  shows "\<exists>p. resolve t2 tempdir = Some p \<and> p \<noteq> [] \<and> isdir_at t2 p"
proof -
  from tempfile_mkdtemp_result[OF mk] obtain p where
    p: "resolve t tempdir = Some p" "p \<noteq> []" "isdir_at t (butlast p)" "\<not> exists_at t p"
    and t1: "t1 = put t p (Dir [])" by blast
  have r1: "resolve t1 tempdir = Some p"
    unfolding t1 using p by (intro resolve_put_fresh)
  from unpack_archive_result[OF un] r1 obtain es where
    t2: "t2 = put t1 p (Dir es)" by auto
  have nb: "\<not> prefix p (butlast p)"
    using p(2) by (metis append_butlast_last_id prefix_order.antisym prefix_def
        self_append_conv snoc_eq_iff_butlast)
  have d1: "isdir_at t1 (butlast p)"
    unfolding t1 using p nb by (simp add: isdir_put)
  have dirs: "isdir_at t2 q" if "isdir_at t1 q" for q
  proof (cases "prefix p q")
    case False
    with that d1 p(2) show ?thesis unfolding t2 by (simp add: isdir_put)
  next
    case True
    with that p have "isdir_at (Dir []) (drop (length p) q)"
      unfolding t1 by (simp add: isdir_put)
    then have "drop (length p) q = []"
      by (auto simp: isdir_at_def lookup_Dir_Nil split: if_splits)
    with True have "q = p" by (auto simp: prefix_def)
    with d1 p(2) show ?thesis
      unfolding t2 by (simp add: isdir_put isdir_at_Dir)
  qed
  have r2: "resolve t2 tempdir = Some p"
    using r1 by (rule resolve_mono[rotated]) (rule dirs)
  have "isdir_at t2 p"
    unfolding t2 using d1 p(2) by (simp add: isdir_put isdir_at_Dir)
  with r2 p(2) show ?thesis by blast
qed

text \<open>
  Claim C4.  Once \<^verbatim>\<open>mkdtemp\<close> has made the private extraction directory and
  \<^verbatim>\<open>unpack_archive\<close> has unpacked the archive into it, \<^verbatim>\<open>_extract_file_to_file_server\<close>
  raises \<open>BadParametersError\<close> with the message \<^verbatim>\<open>archive must contain exactly 1
  directory\<close> (the specification's StructuralValidationError) exactly when the
  listing of the extraction directory is not one entry that is a directory.  A listing
  of one directory never raises it, whatever the directory holds.
\<close>

theorem structural_validation:
  assumes mk: "tempfile_mkdtemp e ''-blueprint-submit'' (fs w) = Inr (tempdir, t1)"
    and un: "unpack_archive e archive_target_path tempdir t1 = Inr t2"
    and ls: "os_listdir tempdir t2 = Inr archive_file_list"
  shows "fst (extract_file_to_file_server e root archive_target_path w) =
           Inl (BadParametersError, ''archive must contain exactly 1 directory'')
         \<longleftrightarrow> \<not> (length archive_file_list = 1 \<and>
                 os_path_isdir t2 (os_path_join tempdir (archive_file_list ! 0)))"
proof -
  from tempdir_after_unpack[OF mk un] obtain p where
    p: "resolve t2 tempdir = Some p" "p \<noteq> []" "isdir_at t2 p" by blast
  then have rm: "shutil_rmtree tempdir t2 = Inr (del t2 p)"
    by (simp add: shutil_rmtree_def)
  define w1 where "w1 = \<lparr>fs = t1, trace = trace w @ [t1]\<rparr>"
  define w2 where "w2 = \<lparr>fs = t2, trace = trace w1 @ [t2]\<rparr>"
  define rest where "rest =
     (let application_dir_base_name = archive_file_list ! 0;
          generated_app_dir_name = application_dir_base_name @ ''-'' @ uuid4 e;
          temp_application_dir = os_path_join tempdir application_dir_base_name;
          temp_application_target_dir = os_path_join tempdir generated_app_dir_name
      in
        bind (exec (shutil_move temp_application_dir temp_application_target_dir)) (\<lambda>_.
        bind (exec (shutil_move temp_application_target_dir root)) (\<lambda>_.
        return generated_app_dir_name)))"
  define bad where "bad \<longleftrightarrow> \<not> (length archive_file_list = 1 \<and>
                 os_path_isdir t2 (os_path_join tempdir (archive_file_list ! 0)))"
  have run: "extract_file_to_file_server e root archive_target_path w =
     try_finally
       (if bad then raise (BadParametersError, ''archive must contain exactly 1 directory'')
        else rest)
       (exec (shutil_rmtree tempdir)) w2"
    using mk un ls
    by (simp add: extract_file_to_file_server_def prog_defs w1_def w2_def rest_def bad_def
        Let_def)
  show ?thesis
  proof (cases bad)
    case True
    with run rm have "fst (extract_file_to_file_server e root archive_target_path w) =
           Inl (BadParametersError, ''archive must contain exactly 1 directory'')"
      by (simp add: prog_defs w2_def)
    with True show ?thesis by (simp add: bad_def)
  next
    case False
    have rest_class: "fst x \<noteq> BadParametersError" if "rest w2 = (Inl x, w')" for x w'
      using that
      by (auto simp: rest_def Let_def prog_defs split: sum.splits dest: shutil_move_error)
    obtain r w' where r: "rest w2 = (r, w')" by (cases "rest w2")
    have "fst (try_finally rest (exec (shutil_rmtree tempdir)) w2)
            \<noteq> Inl (BadParametersError, ''archive must contain exactly 1 directory'')"
      using r rest_class[of _ w']
      by (auto simp: prog_defs split: sum.splits dest: shutil_rmtree_error)
    with False run show ?thesis by (simp add: bad_def)
  qed
qed

theorem structural_validation_witness:
  "tempfile_mkdtemp ex_env_two_dirs ''-blueprint-submit'' (fs ex_world_saved)
     = Inr (''/tmp/tmpb-blueprint-submit'',
            Dir [(''srv'', Dir [(''tmpa'', File ''PK'')]),
                 (''tmp'', Dir [(''tmpb-blueprint-submit'', Dir [])])])
   \<and> unpack_archive ex_env_two_dirs ''/srv/tmpa'' ''/tmp/tmpb-blueprint-submit''
        (Dir [(''srv'', Dir [(''tmpa'', File ''PK'')]),
              (''tmp'', Dir [(''tmpb-blueprint-submit'', Dir [])])])
      = Inr (Dir [(''srv'', Dir [(''tmpa'', File ''PK'')]),
                  (''tmp'', Dir [(''tmpb-blueprint-submit'',
                                  Dir [(''a'', Dir []), (''b'', Dir [])])])])
   \<and> os_listdir ''/tmp/tmpb-blueprint-submit''
        (Dir [(''srv'', Dir [(''tmpa'', File ''PK'')]),
              (''tmp'', Dir [(''tmpb-blueprint-submit'',
                              Dir [(''a'', Dir []), (''b'', Dir [])])])])
      = Inr [''a'', ''b'']
   \<and> fst (extract_file_to_file_server ex_env_two_dirs ''/srv'' ''/srv/tmpa'' ex_world_saved)
      = Inl (BadParametersError, ''archive must contain exactly 1 directory'')
   \<and> fst (extract_file_to_file_server ex_env_top_file ''/srv'' ''/srv/tmpa'' ex_world_saved)
      = Inl (BadParametersError, ''archive must contain exactly 1 directory'')
   \<and> fst (extract_file_to_file_server ex_env ''/srv'' ''/srv/tmpa'' ex_world_saved)
      = Inr ''app-u''"
proof -
  have top_file:
    "fst (extract_file_to_file_server ex_env_top_file ''/srv'' ''/srv/tmpa'' ex_world_saved)
      = Inl (BadParametersError, ''archive must contain exactly 1 directory'')"
    by code_simp
  have one_dir:
    "fst (extract_file_to_file_server ex_env ''/srv'' ''/srv/tmpa'' ex_world_saved)
      = Inr ''app-u''"
    by code_simp
  have mk: "tempfile_mkdtemp ex_env_two_dirs ''-blueprint-submit'' (fs ex_world_saved)
     = Inr (''/tmp/tmpb-blueprint-submit'',
            Dir [(''srv'', Dir [(''tmpa'', File ''PK'')]),
                 (''tmp'', Dir [(''tmpb-blueprint-submit'', Dir [])])])"
    by code_simp
  have un: "unpack_archive ex_env_two_dirs ''/srv/tmpa'' ''/tmp/tmpb-blueprint-submit''
        (Dir [(''srv'', Dir [(''tmpa'', File ''PK'')]),
              (''tmp'', Dir [(''tmpb-blueprint-submit'', Dir [])])])
      = Inr (Dir [(''srv'', Dir [(''tmpa'', File ''PK'')]),
                  (''tmp'', Dir [(''tmpb-blueprint-submit'',
                                  Dir [(''a'', Dir []), (''b'', Dir [])])])])"
    by code_simp
  have ls: "os_listdir ''/tmp/tmpb-blueprint-submit''
        (Dir [(''srv'', Dir [(''tmpa'', File ''PK'')]),
              (''tmp'', Dir [(''tmpb-blueprint-submit'',
                              Dir [(''a'', Dir []), (''b'', Dir [])])])])
      = Inr [''a'', ''b'']"
    by code_simp
  from structural_validation[OF mk un ls, of "''/srv''"] mk un ls top_file one_dir
  show ?thesis by simp
qed

section \<open>Plugin packaging\<close>

lemma exists_under_isdir: "lookup t (p @ r) = Some n \<Longrightarrow> r \<noteq> [] \<Longrightarrow> isdir_at t p"
proof (induction t p rule: lookup.induct)
  case (1 n)
  then show ?case by (cases n; cases r) (auto simp: isdir_at_def)
next
  case (2 d c cs)
  then show ?case by simp
next
  case (3 es c cs)
  then show ?case by (auto simp: isdir_at_def split: option.splits)
qed

lemma open_write_keeps:
  assumes "open_write name c t = Inr t'" "exists_at t q"
  shows "exists_at t' q"
proof -
  from assms(1) obtain p where p: "p \<noteq> []" "isdir_at t (butlast p)" "\<not> isdir_at t p"
    and t': "t' = put t p (File c)"
    by (auto simp: open_write_def split: option.splits if_splits)
  show ?thesis
  proof (cases "prefix p q")
    case False
    with p assms(2) show ?thesis unfolding t' by (simp add: exists_put)
  next
    case True
    then obtain r where q: "q = p @ r" by (auto simp: prefix_def)
    from assms(2) obtain n where n: "lookup t (p @ r) = Some n"
      by (auto simp: q exists_at_def split: option.splits)
    have "r = []"
    proof (rule ccontr)
      assume "r \<noteq> []"
      from exists_under_isdir[OF n this] p(3) show False by simp
    qed
    with p q show ?thesis unfolding t' by (simp add: exists_at_def lookup_put_self)
  qed
qed

lemma zip_dir_keeps: "zip_dir e d target t = Inr t' \<Longrightarrow> exists_at t q \<Longrightarrow> exists_at t' q"
  unfolding zip_dir_def Let_def by (rule open_write_keeps)

lemma zip_dir_error: "zip_dir e d target t = Inl x \<Longrightarrow> fst x = IOError"
  unfolding zip_dir_def Let_def by (rule open_write_error)

lemma zip_plugins_keeps:
  "zip_plugins e root bid ps w = (r, w') \<Longrightarrow> exists_at (fs w) q \<Longrightarrow> exists_at (fs w') q"
proof (induction ps arbitrary: w)
  case Nil
  then show ?case by (simp add: return_def)
next
  case (Cons a ps)
  then show ?case
    by (auto simp: Let_def bind_def exec_def split: sum.splits dest: zip_dir_keeps)
qed

lemma zip_plugins_error:
  "zip_plugins e root bid ps w = (Inl x, w') \<Longrightarrow> fst x = IOError"
proof (induction ps arbitrary: w)
  case Nil
  then show ?case by (simp add: return_def)
next
  case (Cons a ps)
  then show ?case
    by (auto simp: Let_def bind_def exec_def split: sum.splits dest: zip_dir_error)
qed

lemma process_plugins_keeps:
  "process_plugins e root bid w = (r, w') \<Longrightarrow> exists_at (fs w) q \<Longrightarrow> exists_at (fs w') q"
  by (auto simp: process_plugins_def Let_def bind_def observe_def attempt_def return_def
      split: if_splits sum.splits dest: zip_plugins_keeps)

lemma process_plugins_error:
  "process_plugins e root bid w = (Inl x, w') \<Longrightarrow> fst x = IOError \<or> fst x = OSError"
  by (auto simp: process_plugins_def Let_def bind_def observe_def attempt_def return_def
      split: if_splits sum.splits dest: zip_plugins_error os_listdir_error)

text \<open>
  Claim C7, as stated, does not hold.  The example archive has a plugin directory
  \<^verbatim>\<open>plugins/p\<close> and a directory \<^verbatim>\<open>plugins/p.zip\<close>.  The parser accepts the blueprint
  and the directory is moved to \<^verbatim>\<open>/srv/blueprints/bp\<close>; \<^verbatim>\<open>_zip_dir\<close> then cannot open
  \<^verbatim>\<open>plugins/p.zip\<close> for writing, and the \<open>IOError\<close> ends the upload as a failure.
\<close>

theorem plugin_failure_counterexample:
  "fst (do_request ex_env_plugins ''bp'' ex_world) =
     Inl (IOError, ''/srv/blueprints/bp/plugins/p.zip'')
   \<and> os_path_isdir (fs (snd (do_request ex_env_plugins ''bp'' ex_world))) ''/srv/blueprints/bp''"
  by code_simp

text \<open>
  Claim C7, amended.  When parsing succeeded, the blueprint directory was moved to
  the permanent path and plugin packaging then raises, the exception is not caught:
  \<^verbatim>\<open>_prepare_and_submit_blueprint\<close> raises it and \<^verbatim>\<open>do_request\<close> ends with an
  exception.  The placement is not rolled back: everything that existed after the
  move still exists when the exception leaves \<^verbatim>\<open>_prepare_and_submit_blueprint\<close>.
\<close>

theorem plugin_failure_fails_upload:
  assumes mk: "tempfile_mktemp e (file_server_root (config e)) (fs w) = Inr archive"
    and sv: "save_file_locally e archive w = (Inr (), w1)"
    and ex: "extract_file_to_file_server e (file_server_root (config e)) archive w1 =
               (Inr application_dir, w2)"
    and loc: "fst (extract_application_file e (file_server_root (config e)) application_dir w2)
               = Inr application_file"
    and pub: "publish_blueprint e (file_server_base_uri (config e) @ ''/'' @ application_file)
                (file_server_base_uri (config e) @ ''/'') blueprint_id = Inr bp"
    and mv: "shutil_move (os_path_join (file_server_root (config e)) application_dir)
               (os_path_join (os_path_join (file_server_root (config e))
                  (file_server_blueprints_folder (config e))) (id' bp)) (fs w2) = Inr t3"
    and pl: "process_plugins e (file_server_root (config e)) (id' bp)
               \<lparr>fs = t3, trace = trace w2 @ [t3]\<rparr> = (Inl err, w4)"
  shows "prepare_and_submit_blueprint e (file_server_root (config e)) application_dir
           blueprint_id w2 = (Inl err, w4)
         \<and> (\<exists>err'. fst (do_request e blueprint_id w) = Inl err')
         \<and> (\<forall>q. exists_at t3 q \<longrightarrow> exists_at (fs w4) q)"
proof -
  have loc': "extract_application_file e (file_server_root (config e)) application_dir w2
               = (Inr application_file, w2)"
    using loc extract_application_file_state[of e "file_server_root (config e)" application_dir w2]
    by (simp add: prod_eq_iff)
  from process_plugins_error[OF pl] have cls: "fst err \<noteq> DslParseException" by auto
  have prep: "prepare_and_submit_blueprint e (file_server_root (config e)) application_dir
           blueprint_id w2 = (Inl err, w4)"
    using loc' pub mv pl cls
    by (cases err) (simp add: prepare_and_submit_blueprint_def Let_def prog_defs)
  have keeps: "\<forall>q. exists_at t3 q \<longrightarrow> exists_at (fs w4) q"
    using process_plugins_keeps[OF pl] by simp
  define c where "c = bind (observe (\<lambda>t. os_path_exists t archive))
             (\<lambda>present. if present then exec (os_remove archive) else return ())"
  obtain r5 w5 where c5: "c w4 = (r5, w5)" by (cases "c w4")
  have "do_request e blueprint_id w = (case r5 of Inl x \<Rightarrow> (Inl x, w5) | Inr _ \<Rightarrow> (Inl err, w5))"
    using mk sv ex prep c5
    by (simp add: do_request_def Let_def bind_def attempt_def try_finally_def c_def
        split: sum.splits)
  then have "\<exists>err'. fst (do_request e blueprint_id w) = Inl err'"
    by (cases r5) auto
  with prep keeps show ?thesis by blast
qed

theorem plugin_failure_fails_upload_witness:
  "tempfile_mktemp ex_env_plugins (file_server_root (config ex_env_plugins)) (fs ex_world)
     = Inr ''/srv/tmpa''
   \<and> save_file_locally ex_env_plugins ''/srv/tmpa'' ex_world = (Inr (), ex_world_saved)
   \<and> extract_file_to_file_server ex_env_plugins (file_server_root (config ex_env_plugins))
        ''/srv/tmpa'' ex_world_saved = (Inr ''app-u'', ex_plugins_extracted)
   \<and> fst (extract_application_file ex_env_plugins (file_server_root (config ex_env_plugins))
        ''app-u'' ex_plugins_extracted) = Inr ''app-u/blueprint.yaml''
   \<and> publish_blueprint ex_env_plugins
        (file_server_base_uri (config ex_env_plugins) @ ''/'' @ ''app-u/blueprint.yaml'')
        (file_server_base_uri (config ex_env_plugins) @ ''/'') ''bp'' = Inr \<lparr>id' = ''bp''\<rparr>
   \<and> shutil_move (os_path_join (file_server_root (config ex_env_plugins)) ''app-u'')
        (os_path_join (os_path_join (file_server_root (config ex_env_plugins))
           (file_server_blueprints_folder (config ex_env_plugins))) (id' \<lparr>id' = ''bp''\<rparr>))
        (fs ex_plugins_extracted) = Inr ex_plugins_placed
   \<and> process_plugins ex_env_plugins (file_server_root (config ex_env_plugins))
        (id' \<lparr>id' = ''bp''\<rparr>)
        \<lparr>fs = ex_plugins_placed, trace = trace ex_plugins_extracted @ [ex_plugins_placed]\<rparr>
      = (Inl (IOError, ''/srv/blueprints/bp/plugins/p.zip''),
         \<lparr>fs = ex_plugins_placed, trace = trace ex_plugins_extracted @ [ex_plugins_placed]\<rparr>)
   \<and> prepare_and_submit_blueprint ex_env_plugins (file_server_root (config ex_env_plugins))
        ''app-u'' ''bp'' ex_plugins_extracted
      = (Inl (IOError, ''/srv/blueprints/bp/plugins/p.zip''),
         \<lparr>fs = ex_plugins_placed, trace = trace ex_plugins_extracted @ [ex_plugins_placed]\<rparr>)
   \<and> (\<exists>err'. fst (do_request ex_env_plugins ''bp'' ex_world) = Inl err')"
proof -
  have mk: "tempfile_mktemp ex_env_plugins (file_server_root (config ex_env_plugins)) (fs ex_world)
     = Inr ''/srv/tmpa''"
    by code_simp
  have sv: "save_file_locally ex_env_plugins ''/srv/tmpa'' ex_world = (Inr (), ex_world_saved)"
    by code_simp
  have ex: "extract_file_to_file_server ex_env_plugins (file_server_root (config ex_env_plugins))
        ''/srv/tmpa'' ex_world_saved = (Inr ''app-u'', ex_plugins_extracted)"
    by code_simp
  have loc: "fst (extract_application_file ex_env_plugins (file_server_root (config ex_env_plugins))
        ''app-u'' ex_plugins_extracted) = Inr ''app-u/blueprint.yaml''"
    by code_simp
  have pub: "publish_blueprint ex_env_plugins
        (file_server_base_uri (config ex_env_plugins) @ ''/'' @ ''app-u/blueprint.yaml'')
        (file_server_base_uri (config ex_env_plugins) @ ''/'') ''bp'' = Inr \<lparr>id' = ''bp''\<rparr>"
    by code_simp
  have mv: "shutil_move (os_path_join (file_server_root (config ex_env_plugins)) ''app-u'')
        (os_path_join (os_path_join (file_server_root (config ex_env_plugins))
           (file_server_blueprints_folder (config ex_env_plugins))) (id' \<lparr>id' = ''bp''\<rparr>))
        (fs ex_plugins_extracted) = Inr ex_plugins_placed"
    by code_simp
  have pl: "process_plugins ex_env_plugins (file_server_root (config ex_env_plugins))
        (id' \<lparr>id' = ''bp''\<rparr>)
        \<lparr>fs = ex_plugins_placed, trace = trace ex_plugins_extracted @ [ex_plugins_placed]\<rparr>
      = (Inl (IOError, ''/srv/blueprints/bp/plugins/p.zip''),
         \<lparr>fs = ex_plugins_placed, trace = trace ex_plugins_extracted @ [ex_plugins_placed]\<rparr>)"
    by code_simp
  from plugin_failure_fails_upload[OF mk sv ex loc pub mv pl] mk sv ex loc pub mv pl
  show ?thesis by blast
qed

section \<open>Path strings and resolution\<close>
















section \<open>Changes stay below the changed location\<close>







lemma exists_stat: "exists_at t q \<longleftrightarrow> stat_at t q \<noteq> None"
  by (cases "lookup t q") (auto simp: exists_at_def stat_at_def)









lemma same_outside_exists:
  "same_outside P t t' \<Longrightarrow> \<forall>p\<in>P. \<not> prefix p q \<Longrightarrow> exists_at t' q = exists_at t q"
  by (simp add: same_outside_def exists_stat)



subsection \<open>\<open>mkpath\<close>\<close>




section \<open>What the library calls change\<close>










section \<open>How the permanent locations come into existence\<close>













section \<open>Writes before the placement\<close>
























section \<open>Visibility of the permanent locations\<close>





end
